theory Spec2Isabelle
  imports Complex_Main
begin

section \<open>Python values used by the dashboard script\<close>

text \<open>
  The script \<^verbatim>\<open>performance_portal.py\<close> is glue around three Python facilities: the
  builtin \<^verbatim>\<open>float\<close> (applied to the JSON values the brokerage client hands back and to a
  secret), binary64 arithmetic (\<^verbatim>\<open>-\<close> and \<^verbatim>\<open>* 100\<close>), and the format specifications
  \<^verbatim>\<open>,.2f\<close> and \<^verbatim>\<open>.2f\<close>. They are modelled here with exact integer arithmetic, so that
  every rounding step of the interpreter is a step of the model.
\<close>

subsection \<open>Exceptions\<close>

datatype exn =
    APIError string
  | KeyError string
  | TypeError
  | ValueError
  | AttributeError
  | OverflowError
  | OtherError string

subsection \<open>Binary64 floating point numbers\<close>

text \<open>
  \<open>Finite s m e\<close> is the number \<open>(-1)\<^sup>s \<sqdot> m \<sqdot> 2\<^sup>e\<close>. The operations below only produce
  finite values with \<open>m < 2\<^sup>5\<^sup>3\<close> and \<open>-1074 \<le> e \<le> 971\<close>, with \<open>2\<^sup>5\<^sup>2 \<le> m\<close> unless
  \<open>e = -1074\<close> (subnormal numbers and the two zeros).
\<close>

datatype pyfloat = Finite bool int int | Infinity bool | NaN

fun fval :: "pyfloat \<Rightarrow> rat" where
  "fval (Finite s m e) = (if s then - 1 else 1) * of_int m * 2 powi e"
| "fval (Infinity s) = 0"
| "fval NaN = 0"

text \<open>Python's \<^verbatim>\<open>int.bit_length\<close>, on the positive integers.\<close>

function bit_length :: "int \<Rightarrow> nat" where
  "bit_length n = (if n \<le> 0 then 0 else Suc (bit_length (n div 2)))"
  by pat_completeness auto
termination
  by (relation "measure nat") auto

declare bit_length.simps [simp del]

text \<open>The integer nearest to \<open>a / b\<close>, a tie going to the even neighbour.\<close>

definition round_half_even :: "int \<Rightarrow> int \<Rightarrow> int" where
  "round_half_even a b =
     (let q = a div b; r = a mod b
      in if 2 * r < b then q
         else if b < 2 * r then q + 1
         else if even q then q else q + 1)"

text \<open>\<open>pow2_le k n d\<close> decides \<open>2\<^sup>k \<le> n / d\<close> for an integer \<open>k\<close> of either sign.\<close>

definition pow2_le :: "int \<Rightarrow> int \<Rightarrow> int \<Rightarrow> bool" where
  "pow2_le k n d = (if 0 \<le> k then d * 2 ^ nat k \<le> n else d \<le> n * 2 ^ nat (- k))"

text \<open>
  \<open>leading_exponent n d\<close> is the exponent \<open>k\<close> of the leading bit of \<open>n / d\<close> (for positive
  \<open>n\<close> and \<open>d\<close>): \<open>2\<^sup>k \<le> n / d < 2\<^sup>k\<^sup>+\<^sup>1\<close>. The bit lengths give it up to one.
\<close>

definition leading_exponent :: "int \<Rightarrow> int \<Rightarrow> int" where
  "leading_exponent n d =
     (let k0 = int (bit_length n) - int (bit_length d)
      in if pow2_le k0 n d then k0 else k0 - 1)"

text \<open>\<open>significand n d e\<close> is the integer nearest to \<open>(n / d) / 2\<^sup>e\<close>, ties to even.\<close>

definition significand :: "int \<Rightarrow> int \<Rightarrow> int \<Rightarrow> int" where
  "significand n d e =
     (if 0 \<le> e then round_half_even n (d * 2 ^ nat e) else round_half_even (n * 2 ^ nat (- e)) d)"

text \<open>
  \<open>to_double s n d\<close> is the binary64 number nearest to \<open>(-1)\<^sup>s \<sqdot> n / d\<close> (for \<open>n \<ge> 0\<close> and
  \<open>d > 0\<close>), rounding to nearest, ties to even, as IEEE 754 prescribes and as CPython's
  string-to-float conversion and float arithmetic do. The significand keeps 53 bits, fewer
  in the subnormal range; when it rounds up to \<open>2\<^sup>5\<^sup>3\<close> the exponent moves up; a result
  beyond the largest finite number is an infinity.
\<close>

definition to_double :: "bool \<Rightarrow> int \<Rightarrow> int \<Rightarrow> pyfloat" where
  "to_double s n d =
     (if n = 0 then Finite s 0 (- 1074)
      else
        let e = max (leading_exponent n d - 52) (- 1074);
            m = significand n d e
        in if m = 2 ^ 53
           then (if 971 < e + 1 then Infinity s else Finite s (2 ^ 52) (e + 1))
           else (if 971 < e then Infinity s else Finite s m e))"

text \<open>\<open>scaled s n e\<close> rounds the dyadic number \<open>(-1)\<^sup>s \<sqdot> n \<sqdot> 2\<^sup>e\<close>.\<close>

definition scaled :: "bool \<Rightarrow> int \<Rightarrow> int \<Rightarrow> pyfloat" where
  "scaled s n e = (if 0 \<le> e then to_double s (n * 2 ^ nat e) 1 else to_double s n (2 ^ nat (- e)))"

text \<open>
  Float subtraction \<^verbatim>\<open>x - y\<close>. The exact difference of two finite numbers is a dyadic
  number, rounded once. An exact zero difference is \<open>+0\<close>, except \<open>(-0) - (+0) = -0\<close>.
\<close>

fun float_sub :: "pyfloat \<Rightarrow> pyfloat \<Rightarrow> pyfloat" where
  "float_sub NaN y = NaN"
| "float_sub x NaN = NaN"
| "float_sub (Infinity s) (Infinity t) = (if s = t then NaN else Infinity s)"
| "float_sub (Infinity s) (Finite t m e) = Infinity s"
| "float_sub (Finite s m e) (Infinity t) = Infinity (\<not> t)"
| "float_sub (Finite sa ma ea) (Finite sb mb eb) =
     (let e0 = min ea eb;
          a = (if sa then - 1 else 1) * (ma * 2 ^ nat (ea - e0));
          b = (if sb then - 1 else 1) * (mb * 2 ^ nat (eb - e0));
          r = a - b
      in if r = 0 then Finite (ma = 0 \<and> mb = 0 \<and> sa \<and> \<not> sb) 0 (- 1074)
         else scaled (r < 0) \<bar>r\<bar> e0)"

text \<open>Float multiplication \<^verbatim>\<open>x * y\<close>.\<close>

fun float_mul :: "pyfloat \<Rightarrow> pyfloat \<Rightarrow> pyfloat" where
  "float_mul NaN y = NaN"
| "float_mul x NaN = NaN"
| "float_mul (Infinity s) (Infinity t) = Infinity (s \<noteq> t)"
| "float_mul (Infinity s) (Finite t m e) = (if m = 0 then NaN else Infinity (s \<noteq> t))"
| "float_mul (Finite s m e) (Infinity t) = (if m = 0 then NaN else Infinity (s \<noteq> t))"
| "float_mul (Finite sa ma ea) (Finite sb mb eb) = scaled (sa \<noteq> sb) (ma * mb) (ea + eb)"

text \<open>The conversion of a Python \<^verbatim>\<open>int\<close>; it raises \<^verbatim>\<open>OverflowError\<close> beyond the range.\<close>

definition int_to_float :: "int \<Rightarrow> exn + pyfloat" where
  "int_to_float i =
     (case to_double (i < 0) \<bar>i\<bar> 1 of
        Infinity s \<Rightarrow> Inl OverflowError
      | x \<Rightarrow> Inr x)"

definition float_100 :: pyfloat where
  "float_100 = Finite False (100 * 2 ^ 46) (- 46)"

subsection \<open>The format specifications \<^verbatim>\<open>.2f\<close> and \<^verbatim>\<open>,.2f\<close>\<close>

definition digit_char :: "int \<Rightarrow> char" where
  "digit_char d = ''0123456789'' ! nat d"

function digits :: "int \<Rightarrow> string" where
  "digits n = (if n < 10 then [digit_char n] else digits (n div 10) @ [digit_char (n mod 10)])"
  by pat_completeness auto
termination
  by (relation "measure nat") auto

declare digits.simps [simp del]

definition pad2 :: "int \<Rightarrow> string" where
  "pad2 n = [digit_char (n div 10), digit_char (n mod 10)]"

definition pad3 :: "int \<Rightarrow> string" where
  "pad3 n = [digit_char (n div 100), digit_char (n mod 100 div 10), digit_char (n mod 10)]"

text \<open>The decimal digits of \<open>n \<ge> 0\<close> with a comma between groups of three (the \<^verbatim>\<open>,\<close> option).\<close>

function grouped :: "int \<Rightarrow> string" where
  "grouped n = (if n < 1000 then digits n else grouped (n div 1000) @ '','' @ pad3 (n mod 1000))"
  by pat_completeness auto
termination
  by (relation "measure nat") auto

declare grouped.simps [simp del]

text \<open>
  \<open>cents_of m e\<close> is the number of hundredths nearest to \<open>m \<sqdot> 2\<^sup>e\<close>: CPython formats the
  exact binary value, correctly rounded, a tie going to the even digit.
\<close>

definition cents_of :: "int \<Rightarrow> int \<Rightarrow> int" where
  "cents_of m e =
     (if 0 \<le> e then m * 2 ^ nat e * 100 else round_half_even (m * 100) (2 ^ nat (- e)))"

text \<open>\<open>fixed2 g s c\<close> writes \<open>c\<close> hundredths with sign \<open>s\<close>, grouping the integer part when \<open>g\<close>.\<close>

definition fixed2 :: "bool \<Rightarrow> bool \<Rightarrow> int \<Rightarrow> string" where
  "fixed2 g s c =
     (if s then ''-'' else []) @ (if g then grouped (c div 100) else digits (c div 100))
       @ ''.'' @ pad2 (c mod 100)"

fun format_2f :: "bool \<Rightarrow> pyfloat \<Rightarrow> string" where
  "format_2f g (Finite s m e) = fixed2 g s (cents_of m e)"
| "format_2f g (Infinity s) = (if s then ''-inf'' else ''inf'')"
| "format_2f g NaN = ''nan''"

text \<open>The f-string \<^verbatim>\<open>f"${x:,.2f}"\<close>.\<close>

definition dollars :: "pyfloat \<Rightarrow> string" where
  "dollars x = ''$'' @ format_2f True x"

text \<open>
  The decimal notation of an exact number of hundredths \<open>c\<close>, with the dollar sign: what
  \<^verbatim>\<open>f"${x:,.2f}"\<close> would write for a decimal \<open>x = c / 100\<close> held without rounding.
\<close>

definition dollars_of_cents :: "int \<Rightarrow> string" where
  "dollars_of_cents c = ''$'' @ fixed2 True (c < 0) \<bar>c\<bar>"

text \<open>
  The decimal numeral of \<open>c \<ge> 0\<close> hundredths with two decimals, such as \<^verbatim>\<open>105320.50\<close>: the
  form in which an amount of whole cents reaches the script as a JSON string or a secret.
\<close>

definition cents_text :: "int \<Rightarrow> string" where
  "cents_text c = digits (c div 100) @ ''.'' @ pad2 (c mod 100)"

subsection \<open>The builtin \<^verbatim>\<open>float\<close>\<close>

text \<open>
  The grammar of \<^verbatim>\<open>float(str)\<close> (Python language reference, on ASCII strings): blanks are
  stripped at both ends; then an optional sign; then \<^verbatim>\<open>inf\<close>, \<^verbatim>\<open>infinity\<close> or \<^verbatim>\<open>nan\<close> in
  any case, or a decimal number with an optional exponent, where a single underscore may
  stand between two digits.
\<close>

datatype literal = LNum bool int int | LInf bool | LNan

definition is_space :: "char \<Rightarrow> bool" where
  "is_space c = (let n = (of_char c :: nat) in n = 32 \<or> (9 \<le> n \<and> n \<le> 13) \<or> (28 \<le> n \<and> n \<le> 31))"

definition strip :: "string \<Rightarrow> string" where
  "strip s = rev (dropWhile is_space (rev (dropWhile is_space s)))"

definition is_digit :: "char \<Rightarrow> bool" where
  "is_digit c = (let n = (of_char c :: nat) in 48 \<le> n \<and> n \<le> 57)"

definition digit_val :: "char \<Rightarrow> int" where
  "digit_val c = of_char c - 48"

definition is_upper :: "char \<Rightarrow> bool" where
  "is_upper c = (let n = (of_char c :: nat) in 65 \<le> n \<and> n \<le> 90)"

definition is_lower :: "char \<Rightarrow> bool" where
  "is_lower c = (let n = (of_char c :: nat) in 97 \<le> n \<and> n \<le> 122)"

definition to_lower :: "char \<Rightarrow> char" where
  "to_lower c = (if is_upper c then char_of (of_char c + (32 :: nat)) else c)"

definition to_upper :: "char \<Rightarrow> char" where
  "to_upper c = (if is_lower c then char_of (of_char c - (32 :: nat)) else c)"

text \<open>After a digit: more digits, each possibly preceded by one underscore.\<close>

fun digitpart_tail :: "string \<Rightarrow> string \<times> string" where
  "digitpart_tail [] = ([], [])"
| "digitpart_tail [c] = (if is_digit c then ([c], []) else ([], [c]))"
| "digitpart_tail (c # d # cs) =
     (if is_digit c then (let (ds, r) = digitpart_tail (d # cs) in (c # ds, r))
      else if c = CHR ''_'' \<and> is_digit d then (let (ds, r) = digitpart_tail cs in (d # ds, r))
      else ([], c # d # cs))"

text \<open>The longest digit part at the head of a string (no digits when there is none), and the rest.\<close>

fun digitpart :: "string \<Rightarrow> string \<times> string" where
  "digitpart [] = ([], [])"
| "digitpart (c # cs) =
     (if is_digit c then (let (ds, r) = digitpart_tail cs in (c # ds, r)) else ([], c # cs))"

definition digits_val :: "string \<Rightarrow> int" where
  "digits_val ds = foldl (\<lambda>a c. 10 * a + digit_val c) 0 ds"

text \<open>An exponent \<^verbatim>\<open>e[sign]digits\<close> reaching the end of the string, or nothing at all.\<close>

fun exponent :: "string \<Rightarrow> int option" where
  "exponent [] = Some 0"
| "exponent (c # cs) =
     (if c = CHR ''e'' \<or> c = CHR ''E'' then
        (let neg = (case cs of x # _ \<Rightarrow> x = CHR ''-'' | [] \<Rightarrow> False);
             signed = (case cs of x # _ \<Rightarrow> x = CHR ''-'' \<or> x = CHR ''+'' | [] \<Rightarrow> False);
             (ds, r) = digitpart (if signed then tl cs else cs)
         in if ds = [] \<or> r \<noteq> [] then None
            else Some ((if neg then - 1 else 1) * digits_val ds))
      else None)"

text \<open>An unsigned number: \<^verbatim>\<open>[digits] "." digits\<close> or \<^verbatim>\<open>digits ["."]\<close>, then the exponent.\<close>

definition floatnumber :: "bool \<Rightarrow> string \<Rightarrow> literal option" where
  "floatnumber s cs =
     (let (ip, r1) = digitpart cs;
          dot = (case r1 of x # _ \<Rightarrow> x = CHR ''.'' | [] \<Rightarrow> False);
          (fp, r2) = (if dot then digitpart (tl r1) else ([], r1))
      in if ip = [] \<and> fp = [] then None
         else (case exponent r2 of
                 None \<Rightarrow> None
               | Some x \<Rightarrow> Some (LNum s (digits_val (ip @ fp)) (x - int (length fp)))))"

definition parse_float :: "string \<Rightarrow> literal option" where
  "parse_float str =
     (let t = strip str;
          neg = (case t of x # _ \<Rightarrow> x = CHR ''-'' | [] \<Rightarrow> False);
          signed = (case t of x # _ \<Rightarrow> x = CHR ''-'' \<or> x = CHR ''+'' | [] \<Rightarrow> False);
          body = (if signed then tl t else t);
          low = map to_lower body
      in if low = ''inf'' \<or> low = ''infinity'' then Some (LInf neg)
         else if low = ''nan'' then Some LNan
         else floatnumber neg body)"

text \<open>The decimal \<open>(-1)\<^sup>s \<sqdot> m \<sqdot> 10\<^sup>x\<close>, correctly rounded.\<close>

fun literal_to_float :: "literal \<Rightarrow> pyfloat" where
  "literal_to_float (LNum s m x) =
     (if 0 \<le> x then to_double s (m * 10 ^ nat x) 1 else to_double s m (10 ^ nat (- x)))"
| "literal_to_float (LInf s) = Infinity s"
| "literal_to_float LNan = NaN"

text \<open>
  The values the script converts: JSON values of the brokerage client (it delivers amounts
  as strings, and \<^verbatim>\<open>null\<close> as \<^verbatim>\<open>None\<close>) and TOML values of the secrets store.
  \<open>PObject\<close> stands for any value that has no conversion to \<^verbatim>\<open>float\<close> (a table, a list,
  a date).
\<close>

datatype pyval = PNone | PBool bool | PInt int | PFloat pyfloat | PStr string | PObject

fun py_float :: "pyval \<Rightarrow> exn + pyfloat" where
  "py_float PNone = Inl TypeError"
| "py_float (PBool b) = Inr (if b then Finite False (2 ^ 52) (- 52) else Finite False 0 (- 1074))"
| "py_float (PInt i) = int_to_float i"
| "py_float (PFloat x) = Inr x"
| "py_float (PStr s) =
     (case parse_float s of None \<Rightarrow> Inl ValueError | Some l \<Rightarrow> Inr (literal_to_float l))"
| "py_float PObject = Inl TypeError"

text \<open>\<^verbatim>\<open>str.title()\<close> on ASCII: a letter after a non-letter is upper case, any other lower case.\<close>

fun title_from :: "bool \<Rightarrow> string \<Rightarrow> string" where
  "title_from p [] = []"
| "title_from p (c # cs) =
     (if is_lower c \<or> is_upper c
      then (if p then to_lower c else to_upper c) # title_from True cs
      else c # title_from False cs)"

definition title :: "string \<Rightarrow> string" where
  "title s = title_from False s"

section \<open>The data of the brokerage client\<close>

text \<open>
  The client's entities wrap the JSON of the remote interface; an attribute read returns the
  JSON value. Amount fields are typed \<open>pyval\<close>, since the script converts each with
  \<^verbatim>\<open>float\<close>; the fields it calls \<^verbatim>\<open>title()\<close> on are strings. The client turns a
  \<^verbatim>\<open>..._at\<close> field into a timestamp, or leaves \<^verbatim>\<open>None\<close>.
\<close>

record account =
  portfolio_value :: pyval
  cash :: pyval
  equity :: pyval
  last_equity :: pyval

record position =
  symbol :: string
  qty :: pyval
  side :: string
  market_value :: pyval
  cost_basis :: pyval
  unrealized_pl :: pyval
  unrealized_plpc :: pyval

record timestamp =
  year :: int
  month :: int
  day :: int
  hour :: int
  minute :: int
  second :: int

record order =
  order_symbol :: string
  filled_qty :: pyval
  order_side :: string
  order_type :: string
  filled_avg_price :: pyval
  status :: string
  filled_at :: "timestamp option"

record portfolio_history =
  history_timestamp :: "int list"
  history_equity :: "pyval list"
  history_profit_loss :: "pyval list"
  history_profit_loss_pct :: "pyval list"

text \<open>A row of the history frame: timestamp, equity, profit_loss, profit_loss_pct.\<close>

type_synonym history_row = "int \<times> pyval \<times> pyval \<times> pyval"

text \<open>
  The client object \<^verbatim>\<open>api\<close>: what each of its four read operations answers during one
  run of the script, a value or a raised exception.
\<close>

record api =
  api_get_account :: "exn + account"
  api_list_positions :: "exn + position list"
  api_list_orders :: "string \<Rightarrow> nat \<Rightarrow> string \<Rightarrow> exn + order list"
  api_get_portfolio_history :: "string \<Rightarrow> string \<Rightarrow> exn + portfolio_history"

datatype call =
    Get_account
  | List_positions
  | List_orders string nat string
  | Get_portfolio_history string string

section \<open>The page\<close>

record position_row =
  Symbol :: string
  Qty :: pyfloat
  Side :: string
  Market_Value :: string
  Cost_Basis :: string
  Unrealized_PL :: string
  Unrealized_PL_pct :: string

record order_row =
  Order_Symbol :: string
  Order_Qty :: pyfloat
  Order_Side :: string
  Order_Type :: string
  Avg_Fill_Price :: string
  Status :: string
  Filled_At :: string

text \<open>The elements a run puts on the page, one constructor for each Streamlit command used.\<close>

datatype element =
    St_title string
  | St_button string
  | St_header string
  | St_metric string string
  | St_error string
  | St_warning string
  | St_info string
  | St_plotly_chart "history_row list"
  | St_dataframe_positions "position_row list"
  | St_dataframe_orders "order_row list"

text \<open>
  A piece of the script puts elements on the page and either completes or raises: the
  elements put before the exception stay on the page.
\<close>

type_synonym rendering = "element list \<times> exn option"

definition and_then :: "rendering \<Rightarrow> rendering \<Rightarrow> rendering" where
  "and_then r1 r2 =
     (case snd r1 of Some e \<Rightarrow> r1 | None \<Rightarrow> (fst r1 @ fst r2, snd r2))"

text \<open>\<^verbatim>\<open>col.metric(label, f"...")\<close>: the f-string is evaluated first.\<close>

definition metric :: "string \<Rightarrow> exn + string \<Rightarrow> rendering" where
  "metric label v = (case v of Inl e \<Rightarrow> ([], Some e) | Inr s \<Rightarrow> ([St_metric label s], None))"

section \<open>The helper functions\<close>

text \<open>
  \<^verbatim>\<open>get_account_data\<close> (lines 35--44), without its cache: the result, the elements it puts
  on the page and the remote calls it makes. Only \<^verbatim>\<open>APIError\<close> is handled.
\<close>

definition fetch_failed :: "exn \<Rightarrow> call list \<Rightarrow>
    (exn + account option \<times> position list \<times> order list) \<times> element list \<times> call list" where
  "fetch_failed e cs =
     (case e of
        APIError msg \<Rightarrow> (Inr (None, [], []), [St_error (''Error fetching data from Alpaca: '' @ msg)], cs)
      | _ \<Rightarrow> (Inl e, [], cs))"

definition get_account_data :: "api \<Rightarrow>
    (exn + account option \<times> position list \<times> order list) \<times> element list \<times> call list" where
  "get_account_data a =
     (case api_get_account a of
        Inl e \<Rightarrow> fetch_failed e [Get_account]
      | Inr acct \<Rightarrow>
          (case api_list_positions a of
             Inl e \<Rightarrow> fetch_failed e [Get_account, List_positions]
           | Inr positions \<Rightarrow>
               (case api_list_orders a ''closed'' 100 ''desc'' of
                  Inl e \<Rightarrow>
                    fetch_failed e [Get_account, List_positions, List_orders ''closed'' 100 ''desc'']
                | Inr orders \<Rightarrow>
                    (Inr (Some acct, positions, orders), [],
                     [Get_account, List_positions, List_orders ''closed'' 100 ''desc'']))))"

text \<open>
  The frame of \<^verbatim>\<open>get_portfolio_history\<close>: \<^verbatim>\<open>pd.DataFrame\<close> raises \<^verbatim>\<open>ValueError\<close> on
  columns of different lengths, and \<^verbatim>\<open>pd.to_datetime(..., unit='s')\<close> raises
  \<^verbatim>\<open>OutOfBoundsDatetime\<close>, a \<^verbatim>\<open>ValueError\<close>, outside the nanosecond range of 64 bits. The
  timestamps stay seconds in the model.
\<close>

definition history_frame :: "portfolio_history \<Rightarrow> exn + history_row list" where
  "history_frame h =
     (let n = length (history_timestamp h)
      in if length (history_equity h) \<noteq> n \<or> length (history_profit_loss h) \<noteq> n
            \<or> length (history_profit_loss_pct h) \<noteq> n
         then Inl ValueError
         else if list_ex (\<lambda>t. 9223372036 < \<bar>t\<bar>) (history_timestamp h) then Inl ValueError
         else Inr (zip (history_timestamp h)
                (zip (history_equity h) (zip (history_profit_loss h) (history_profit_loss_pct h)))))"

text \<open>\<^verbatim>\<open>get_portfolio_history\<close> (lines 47--61), without its cache.\<close>

definition get_portfolio_history ::
    "api \<Rightarrow> (exn + history_row list) \<times> element list \<times> call list" where
  "get_portfolio_history a =
     (case api_get_portfolio_history a ''1M'' ''1D'' of
        Inl (APIError msg) \<Rightarrow>
          (Inr [], [St_error (''Error fetching portfolio history: '' @ msg)],
           [Get_portfolio_history ''1M'' ''1D''])
      | Inl e \<Rightarrow> (Inl e, [], [Get_portfolio_history ''1M'' ''1D''])
      | Inr h \<Rightarrow> (history_frame h, [], [Get_portfolio_history ''1M'' ''1D'']))"

section \<open>The dashboard layout\<close>

subsection \<open>Key metrics (lines 77--82)\<close>

definition money :: "pyval \<Rightarrow> exn + string" where
  "money v = (case py_float v of Inl e \<Rightarrow> Inl e | Inr x \<Rightarrow> Inr (dollars x))"

definition todays_pl :: "account \<Rightarrow> exn + string" where
  "todays_pl a =
     (case py_float (equity a) of
        Inl e \<Rightarrow> Inl e
      | Inr x \<Rightarrow>
          (case py_float (last_equity a) of
             Inl e \<Rightarrow> Inl e
           | Inr y \<Rightarrow> Inr (dollars (float_sub x y))))"

definition total_pl :: "pyfloat \<Rightarrow> account \<Rightarrow> exn + string" where
  "total_pl total_portfolio_cash a =
     (case py_float (equity a) of
        Inl e \<Rightarrow> Inl e
      | Inr x \<Rightarrow> Inr (dollars (float_sub x total_portfolio_cash)))"

definition key_metrics :: "pyfloat \<Rightarrow> account \<Rightarrow> rendering" where
  "key_metrics total_portfolio_cash a =
     and_then ([St_header ''Key Performance Indicators''], None)
    (and_then (metric ''Portfolio Value'' (money (portfolio_value a)))
    (and_then (metric ''Cash Balance'' (money (cash a)))
    (and_then (metric (''Today'' @ [CHR 0x27] @ ''s P/L'') (todays_pl a))
              (metric ''Total P/L'' (total_pl total_portfolio_cash a)))))"

subsection \<open>History chart (lines 85--90)\<close>

definition history_chart :: "history_row list \<Rightarrow> rendering" where
  "history_chart history_df =
     (if history_df \<noteq> []
      then ([St_header ''Portfolio Value Over Time (30 Days)'', St_plotly_chart history_df], None)
      else ([St_header ''Portfolio Value Over Time (30 Days)'',
             St_warning ''Could not load portfolio history chart.''], None))"

subsection \<open>Current positions (lines 93--108)\<close>

definition percent :: "pyval \<Rightarrow> exn + string" where
  "percent v =
     (case py_float v of
        Inl e \<Rightarrow> Inl e
      | Inr x \<Rightarrow> Inr (format_2f False (float_mul x float_100) @ ''%''))"

definition positions_row :: "position \<Rightarrow> exn + position_row" where
  "positions_row p =
     (case py_float (qty p) of Inl e \<Rightarrow> Inl e | Inr q \<Rightarrow>
     (case money (market_value p) of Inl e \<Rightarrow> Inl e | Inr mv \<Rightarrow>
     (case money (cost_basis p) of Inl e \<Rightarrow> Inl e | Inr cb \<Rightarrow>
     (case money (unrealized_pl p) of Inl e \<Rightarrow> Inl e | Inr pl \<Rightarrow>
     (case percent (unrealized_plpc p) of Inl e \<Rightarrow> Inl e | Inr pc \<Rightarrow>
        Inr \<lparr>Symbol = symbol p, Qty = q, Side = title (side p), Market_Value = mv,
             Cost_Basis = cb, Unrealized_PL = pl, Unrealized_PL_pct = pc\<rparr>)))))"

fun positions_data :: "position list \<Rightarrow> exn + position_row list" where
  "positions_data [] = Inr []"
| "positions_data (p # ps) =
     (case positions_row p of
        Inl e \<Rightarrow> Inl e
      | Inr r \<Rightarrow> (case positions_data ps of Inl e \<Rightarrow> Inl e | Inr rs \<Rightarrow> Inr (r # rs)))"

definition current_positions :: "position list \<Rightarrow> rendering" where
  "current_positions positions =
     (if positions \<noteq> [] then
        (case positions_data positions of
           Inl e \<Rightarrow> ([St_header ''Current Open Positions''], Some e)
         | Inr rows \<Rightarrow> ([St_header ''Current Open Positions'', St_dataframe_positions rows], None))
      else ([St_header ''Current Open Positions'', St_info ''No open positions.''], None))"

subsection \<open>Recent trades (lines 111--126)\<close>

text \<open>\<^verbatim>\<open>strftime('%Y-%m-%d %H:%M:%S')\<close>, for the four-digit years a pandas timestamp has.\<close>

definition strftime :: "timestamp \<Rightarrow> string" where
  "strftime t =
     pad2 (year t div 100) @ pad2 (year t mod 100) @ ''-'' @ pad2 (month t) @ ''-'' @ pad2 (day t)
       @ '' '' @ pad2 (hour t) @ '':'' @ pad2 (minute t) @ '':'' @ pad2 (second t)"

text \<open>\<^verbatim>\<open>pd.to_datetime(None)\<close> is \<^verbatim>\<open>None\<close>, which has no \<^verbatim>\<open>strftime\<close>.\<close>

definition filled_at_text :: "timestamp option \<Rightarrow> exn + string" where
  "filled_at_text t = (case t of None \<Rightarrow> Inl AttributeError | Some ts \<Rightarrow> Inr (strftime ts))"

definition orders_row :: "order \<Rightarrow> exn + order_row" where
  "orders_row o' =
     (case py_float (filled_qty o') of Inl e \<Rightarrow> Inl e | Inr q \<Rightarrow>
     (case money (filled_avg_price o') of Inl e \<Rightarrow> Inl e | Inr price \<Rightarrow>
     (case filled_at_text (filled_at o') of Inl e \<Rightarrow> Inl e | Inr filled \<Rightarrow>
        Inr \<lparr>Order_Symbol = order_symbol o', Order_Qty = q, Order_Side = title (order_side o'),
             Order_Type = title (order_type o'), Avg_Fill_Price = price,
             Status = title (status o'), Filled_At = filled\<rparr>)))"

fun orders_data :: "order list \<Rightarrow> exn + order_row list" where
  "orders_data [] = Inr []"
| "orders_data (x # xs) =
     (case orders_row x of
        Inl e \<Rightarrow> Inl e
      | Inr r \<Rightarrow> (case orders_data xs of Inl e \<Rightarrow> Inl e | Inr rs \<Rightarrow> Inr (r # rs)))"

definition recent_trades :: "order list \<Rightarrow> rendering" where
  "recent_trades orders =
     (if orders \<noteq> [] then
        (case orders_data orders of
           Inl e \<Rightarrow> ([St_header ''Recent Closed Orders (Last 100)''], Some e)
         | Inr rows \<Rightarrow> ([St_header ''Recent Closed Orders (Last 100)'', St_dataframe_orders rows], None))
      else ([St_header ''Recent Closed Orders (Last 100)'',
             St_info ''No recent closed orders found.''], None))"

subsection \<open>The account guard (lines 75--129)\<close>

definition dashboard ::
    "pyfloat \<Rightarrow> account option \<Rightarrow> position list \<Rightarrow> order list \<Rightarrow> history_row list \<Rightarrow> rendering" where
  "dashboard total_portfolio_cash acct positions orders history_df =
     (case acct of
        Some a \<Rightarrow>
          and_then (key_metrics total_portfolio_cash a)
         (and_then (history_chart history_df)
         (and_then (current_positions positions) (recent_trades orders)))
      | None \<Rightarrow> ([St_error ''Could not connect to Alpaca to fetch account data.''], None))"

section \<open>The script\<close>

subsection \<open>Secrets and connection (lines 21--31)\<close>

text \<open>
  \<^verbatim>\<open>st.secrets\<close>: sections of keys. A missing section or key raises \<^verbatim>\<open>KeyError\<close>;
  \<^verbatim>\<open>.get("base_url", ...)\<close> falls back on the paper-trading endpoint. The constructor
  \<^verbatim>\<open>tradeapi.REST\<close> is a parameter \<open>rest\<close>: it gives the client object or raises.
\<close>

type_synonym secrets = "string \<Rightarrow> (string \<Rightarrow> pyval option) option"

definition secret :: "secrets \<Rightarrow> string \<Rightarrow> string \<Rightarrow> exn + pyval" where
  "secret st sect k =
     (case st sect of
        None \<Rightarrow> Inl (KeyError sect)
      | Some m \<Rightarrow> (case m k of None \<Rightarrow> Inl (KeyError k) | Some v \<Rightarrow> Inr v))"

definition paper_url :: string where
  "paper_url = ''https://paper-api.alpaca.markets''"

definition secret_base_url :: "secrets \<Rightarrow> exn + pyval" where
  "secret_base_url st =
     (case st ''alpaca'' of
        None \<Rightarrow> Inl (KeyError ''alpaca'')
      | Some m \<Rightarrow> (case m ''base_url'' of None \<Rightarrow> Inr (PStr paper_url) | Some u \<Rightarrow> Inr u))"

text \<open>The body of the \<^verbatim>\<open>try\<close> block: the client object and \<^verbatim>\<open>TOTAL_PORTFOLIO_CASH\<close>.\<close>

definition connect :: "secrets \<Rightarrow> (pyval \<Rightarrow> pyval \<Rightarrow> pyval \<Rightarrow> exn + api) \<Rightarrow> exn + api \<times> pyfloat" where
  "connect st rest =
     (case secret st ''alpaca'' ''api_key'' of Inl e \<Rightarrow> Inl e | Inr api_key \<Rightarrow>
     (case secret st ''alpaca'' ''secret_key'' of Inl e \<Rightarrow> Inl e | Inr api_secret \<Rightarrow>
     (case secret_base_url st of Inl e \<Rightarrow> Inl e | Inr base_url \<Rightarrow>
     (case secret st ''account'' ''total_portfolio_cash'' of Inl e \<Rightarrow> Inl e | Inr c \<Rightarrow>
     (case py_float c of Inl e \<Rightarrow> Inl e | Inr total_portfolio_cash \<Rightarrow>
     (case rest api_key api_secret base_url of Inl e \<Rightarrow> Inl e | Inr a \<Rightarrow>
        Inr (a, total_portfolio_cash)))))))"

definition fatal_message :: string where
  "fatal_message =
     ''FATAL: Could not connect to Alpaca API. Have you set your secrets in the Streamlit dashboard?''"

definition connected_message :: string where
  "connected_message = [CHR 0xE2, CHR 0x9C, CHR 0x85] @ '' Alpaca API connection successful.''"

subsection \<open>What outlives a run: the caches, the remote calls made, the log\<close>

type_synonym account_data = "account option \<times> position list \<times> order list"

record server =
  account_cache :: "(rat \<times> account_data \<times> element list) option"
  history_cache :: "(rat \<times> history_row list \<times> element list) option"
  remote_calls :: "call list"
  log_lines :: "string list"

text \<open>
  Modelled from the spec: the decorator \<^verbatim>\<open>st.cache_data(ttl=...)\<close> belongs to the
  dashboard framework, whose code is not part of the repository. The spec (4.3 and 9)
  describes it as a cache from a key to a value with an expiry time, with
  \<^verbatim>\<open>get_or_fetch(key, ttl, fetch_fn)\<close> and \<^verbatim>\<open>invalidate_all()\<close>: an entry stored at time
  \<open>t\<close> is served while \<open>now < t + ttl\<close>, and a fetch that returns stores its value. The
  framework replays on a hit the elements the function had put on the page; a fetch that
  raises stores nothing. \<open>fetch\<close> is the outcome the function body would have now.
\<close>

definition cache_data ::
    "rat \<Rightarrow> rat \<Rightarrow> (rat \<times> 'a \<times> element list) option \<Rightarrow> (exn + 'a) \<times> element list \<times> call list \<Rightarrow>
     ((exn + 'a) \<times> element list \<times> call list) \<times> (rat \<times> 'a \<times> element list) option" where
  "cache_data ttl now entry fetch =
     (let miss = (case fetch of
                    (Inr v, els, cs) \<Rightarrow> ((Inr v, els, cs), Some (now, v, els))
                  | (Inl e, els, cs) \<Rightarrow> ((Inl e, els, cs), None))
      in case entry of
           None \<Rightarrow> miss
         | Some (t, v, els) \<Rightarrow> if now < t + ttl then ((Inr v, els, []), entry) else miss)"

text \<open>\<^verbatim>\<open>@st.cache_data(ttl=300)\<close> on \<^verbatim>\<open>get_account_data\<close> (line 34).\<close>

definition cached_get_account_data ::
    "rat \<Rightarrow> api \<Rightarrow> server \<Rightarrow> ((exn + account_data) \<times> element list) \<times> server" where
  "cached_get_account_data now a sv =
     (case cache_data 300 now (account_cache sv) (get_account_data a) of
        ((r, els, cs), entry) \<Rightarrow>
          ((r, els), sv\<lparr>account_cache := entry, remote_calls := remote_calls sv @ cs\<rparr>))"

text \<open>\<^verbatim>\<open>@st.cache_data(ttl=3600)\<close> on \<^verbatim>\<open>get_portfolio_history\<close> (line 46).\<close>

definition cached_get_portfolio_history ::
    "rat \<Rightarrow> api \<Rightarrow> server \<Rightarrow> ((exn + history_row list) \<times> element list) \<times> server" where
  "cached_get_portfolio_history now a sv =
     (case cache_data 3600 now (history_cache sv) (get_portfolio_history a) of
        ((r, els, cs), entry) \<Rightarrow>
          ((r, els), sv\<lparr>history_cache := entry, remote_calls := remote_calls sv @ cs\<rparr>))"

text \<open>Modelled from the spec: \<^verbatim>\<open>st.cache_data.clear()\<close> (line 70) is \<^verbatim>\<open>invalidate_all()\<close>.\<close>

definition cache_data_clear :: "server \<Rightarrow> server" where
  "cache_data_clear sv = sv\<lparr>account_cache := None, history_cache := None\<rparr>"

subsection \<open>One run of the script\<close>

datatype outcome = Completed | Stopped | Raised exn

definition page_title :: string where
  "page_title = [CHR 0xF0, CHR 0x9F, CHR 0x93, CHR 0x88] @ '' Alpaca Trading Performance Overview''"

text \<open>
  \<open>script st rest clicked now sv\<close>: one run, top to bottom, with the secrets \<open>st\<close>, the
  client constructor \<open>rest\<close>, whether the button "Refresh Data" was clicked, the time \<open>now\<close>
  in seconds and the server state \<open>sv\<close>. It gives how the run ended, the page and the new
  server state. An exception outside the \<^verbatim>\<open>try\<close> blocks ends the run.
\<close>

definition script ::
    "secrets \<Rightarrow> (pyval \<Rightarrow> pyval \<Rightarrow> pyval \<Rightarrow> exn + api) \<Rightarrow> bool \<Rightarrow> rat \<Rightarrow> server \<Rightarrow>
     (outcome \<times> element list) \<times> server" where
  "script st rest clicked now sv =
     (case connect st rest of
        Inl e \<Rightarrow> ((Stopped, [St_error fatal_message]), sv)
      | Inr (a, total_portfolio_cash) \<Rightarrow>
         (let sv1 = sv\<lparr>log_lines := log_lines sv @ [connected_message]\<rparr>;
              top = [St_title page_title, St_button ''Refresh Data''];
              sv2 = (if clicked then cache_data_clear sv1 else sv1)
          in (case cached_get_account_data now a sv2 of
               ((Inl e, els1), sv3) \<Rightarrow> ((Raised e, top @ els1), sv3)
             | ((Inr (acct, positions, orders), els1), sv3) \<Rightarrow>
                 (case cached_get_portfolio_history now a sv3 of
                    ((Inl e, els2), sv4) \<Rightarrow> ((Raised e, top @ els1 @ els2), sv4)
                  | ((Inr history_df, els2), sv4) \<Rightarrow>
                      (case dashboard total_portfolio_cash acct positions orders history_df of
                         (els3, None) \<Rightarrow> ((Completed, top @ els1 @ els2 @ els3), sv4)
                       | (els3, Some e) \<Rightarrow> ((Raised e, top @ els1 @ els2 @ els3), sv4))))))"

section \<open>Example data\<close>

definition demo_account :: account where
  "demo_account =
     \<lparr>portfolio_value = PStr ''105320.50'', cash = PStr ''25000.00'',
      equity = PStr ''105320.50'', last_equity = PStr ''104800.00''\<rparr>"

definition demo_api :: api where
  "demo_api =
     \<lparr>api_get_account = Inr demo_account,
      api_list_positions = Inr [],
      api_list_orders = (\<lambda>status limit direction. Inr []),
      api_get_portfolio_history = (\<lambda>period timeframe. Inr
         \<lparr>history_timestamp = [], history_equity = [], history_profit_loss = [],
          history_profit_loss_pct = []\<rparr>)\<rparr>"

definition demo_secrets :: "pyval \<Rightarrow> secrets" where
  "demo_secrets c =
     [''alpaca'' \<mapsto> [''api_key'' \<mapsto> PStr ''PK123'', ''secret_key'' \<mapsto> PStr ''abcdef''],
      ''account'' \<mapsto> [''total_portfolio_cash'' \<mapsto> c]]"

text \<open>A client constructor that accepts nothing but the paper-trading endpoint.\<close>

definition paper_only :: "api \<Rightarrow> pyval \<Rightarrow> pyval \<Rightarrow> pyval \<Rightarrow> exn + api" where
  "paper_only a k s u =
     (if u = PStr ''https://paper-api.alpaca.markets'' then Inr a else Inl (OtherError ''url''))"

definition fresh_server :: server where
  "fresh_server = \<lparr>account_cache = None, history_cache = None, remote_calls = [], log_lines = []\<rparr>"



definition down_api :: api where
  "down_api = demo_api\<lparr>api_get_account := Inl (OtherError ''down''),
       api_get_portfolio_history := (\<lambda>period timeframe. Inl (OtherError ''down''))\<rparr>"

definition served_account :: server where
  "served_account =
     \<lparr>account_cache = Some (0, (Some demo_account, [], []), []), history_cache = None,
      remote_calls = [Get_account, List_positions, List_orders ''closed'' 100 ''desc''],
      log_lines = []\<rparr>"

definition served_history :: server where
  "served_history =
     \<lparr>account_cache = None, history_cache = Some (0, [], []),
      remote_calls = [Get_portfolio_history ''1M'' ''1D''], log_lines = []\<rparr>"

section \<open>Properties of the dashboard layout\<close>

subsection \<open>Empty tables\<close>

text \<open>
  Claim C7. An empty positions list yields the message "No open positions." and no table;
  an empty orders list yields the message "No recent closed orders found." and no table.
  With an account and both lists empty, the page ends with the two headers, each followed
  by its message.
\<close>

theorem empty_lists_yield_info_message:
  "current_positions [] =
     ([St_header ''Current Open Positions'', St_info ''No open positions.''], None)
   \<and> recent_trades [] =
     ([St_header ''Recent Closed Orders (Last 100)'', St_info ''No recent closed orders found.''], None)
   \<and> dashboard tpc (Some a) [] [] history_df =
       and_then (key_metrics tpc a) (and_then (history_chart history_df)
         ([St_header ''Current Open Positions'', St_info ''No open positions.'',
           St_header ''Recent Closed Orders (Last 100)'',
           St_info ''No recent closed orders found.''], None))"
  by (simp add: current_positions_def recent_trades_def dashboard_def and_then_def)

subsection \<open>Rows of the orders table\<close>

text \<open>
  Claim C10. A row of the orders table is built exactly when \<^verbatim>\<open>float\<close> accepts
  \<^verbatim>\<open>filled_qty\<close> and \<^verbatim>\<open>filled_avg_price\<close> and \<^verbatim>\<open>filled_at\<close> is a timestamp. A
  canceled order without a fill (\<^verbatim>\<open>filled_avg_price\<close> and \<^verbatim>\<open>filled_at\<close> are \<^verbatim>\<open>None\<close>)
  raises \<^verbatim>\<open>TypeError\<close> instead of giving a row, and the orders section raises with it.
\<close>

theorem orders_row_defined_iff_filled:
  "((\<exists>r. orders_row x = Inr r) =
      ((\<exists>q. py_float (filled_qty x) = Inr q) \<and> (\<exists>p. py_float (filled_avg_price x) = Inr p)
        \<and> filled_at x \<noteq> None))
   \<and> orders_row \<lparr>order_symbol = ''AAPL'', filled_qty = PStr ''0'', order_side = ''buy'',
          order_type = ''limit'', filled_avg_price = PNone, status = ''canceled'',
          filled_at = None\<rparr> = Inl TypeError
   \<and> recent_trades [\<lparr>order_symbol = ''AAPL'', filled_qty = PStr ''0'', order_side = ''buy'',
          order_type = ''limit'', filled_avg_price = PNone, status = ''canceled'',
          filled_at = None\<rparr>] = ([St_header ''Recent Closed Orders (Last 100)''], Some TypeError)"
proof (intro conjI)
  show "(\<exists>r. orders_row x = Inr r) =
      ((\<exists>q. py_float (filled_qty x) = Inr q) \<and> (\<exists>p. py_float (filled_avg_price x) = Inr p)
        \<and> filled_at x \<noteq> None)"
    by (auto simp: orders_row_def money_def filled_at_text_def split: sum.splits option.splits)
next
  show row: "orders_row \<lparr>order_symbol = ''AAPL'', filled_qty = PStr ''0'', order_side = ''buy'',
          order_type = ''limit'', filled_avg_price = PNone, status = ''canceled'',
          filled_at = None\<rparr> = Inl TypeError"
    by code_simp
  show "recent_trades [\<lparr>order_symbol = ''AAPL'', filled_qty = PStr ''0'', order_side = ''buy'',
          order_type = ''limit'', filled_avg_price = PNone, status = ''canceled'',
          filled_at = None\<rparr>] = ([St_header ''Recent Closed Orders (Last 100)''], Some TypeError)"
    by (simp add: recent_trades_def row)
qed

subsection \<open>The percentage cell\<close>



section \<open>Properties of the script\<close>

subsection \<open>Secrets\<close>




lemma float_100000: "py_float (PStr ''100000.00'') = Inr (Finite False 6871947673600000 (- 36))"
  by code_simp



subsection \<open>Failures of the client\<close>

lemma get_account_data_first_call:
  "take 1 (snd (snd (get_account_data a))) = [Get_account]"
  by (auto simp: get_account_data_def fetch_failed_def split: sum.splits exn.splits)

lemma get_portfolio_history_call:
  "snd (snd (get_portfolio_history a)) = [Get_portfolio_history ''1M'' ''1D'']"
  by (auto simp: get_portfolio_history_def split: sum.splits exn.splits)

text \<open>
  Claim C3, as the code has it. A failure that the client raises as \<^verbatim>\<open>APIError\<close>, in any
  of the three calls of \<^verbatim>\<open>get_account_data\<close> or in \<^verbatim>\<open>get_portfolio_history\<close>, puts
  an error message on the page and is replaced by an absent account with empty positions
  and orders, or by an empty history frame, for which the chart section shows a warning.
  When both helpers fail so, the run completes with the three messages and no section, and
  the only line logged is the one of the connection: the failure itself is not logged.
\<close>

theorem api_error_degrades_gracefully:
  "(api_get_account a = Inl (APIError msg) \<longrightarrow>
      get_account_data a =
        (Inr (None, [], []), [St_error (''Error fetching data from Alpaca: '' @ msg)], [Get_account]))
   \<and> (api_get_account a = Inr acct \<and> api_list_positions a = Inl (APIError msg) \<longrightarrow>
      get_account_data a =
        (Inr (None, [], []), [St_error (''Error fetching data from Alpaca: '' @ msg)],
         [Get_account, List_positions]))
   \<and> (api_get_account a = Inr acct \<and> api_list_positions a = Inr ps
        \<and> api_list_orders a ''closed'' 100 ''desc'' = Inl (APIError msg) \<longrightarrow>
      get_account_data a =
        (Inr (None, [], []), [St_error (''Error fetching data from Alpaca: '' @ msg)],
         [Get_account, List_positions, List_orders ''closed'' 100 ''desc'']))
   \<and> (api_get_portfolio_history a ''1M'' ''1D'' = Inl (APIError msg) \<longrightarrow>
      get_portfolio_history a =
        (Inr [], [St_error (''Error fetching portfolio history: '' @ msg)],
         [Get_portfolio_history ''1M'' ''1D'']))
   \<and> history_chart [] =
        ([St_header ''Portfolio Value Over Time (30 Days)'',
          St_warning ''Could not load portfolio history chart.''], None)
   \<and> (connect st rest = Inr (a, tpc) \<and> account_cache sv = None \<and> history_cache sv = None
        \<and> api_get_account a = Inl (APIError msg)
        \<and> api_get_portfolio_history a ''1M'' ''1D'' = Inl (APIError msg') \<longrightarrow>
      script st rest clicked now sv =
        ((Completed,
          [St_title page_title, St_button ''Refresh Data'',
           St_error (''Error fetching data from Alpaca: '' @ msg),
           St_error (''Error fetching portfolio history: '' @ msg'),
           St_error ''Could not connect to Alpaca to fetch account data.'']),
         sv\<lparr>account_cache :=
               Some (now, (None, [], []), [St_error (''Error fetching data from Alpaca: '' @ msg)]),
             history_cache :=
               Some (now, [], [St_error (''Error fetching portfolio history: '' @ msg')]),
             remote_calls := remote_calls sv @ [Get_account, Get_portfolio_history ''1M'' ''1D''],
             log_lines := log_lines sv @ [connected_message]\<rparr>))"
proof (intro conjI impI)
  show "history_chart [] =
        ([St_header ''Portfolio Value Over Time (30 Days)'',
          St_warning ''Could not load portfolio history chart.''], None)"
    by (simp add: history_chart_def)
next
  assume h: "connect st rest = Inr (a, tpc) \<and> account_cache sv = None \<and> history_cache sv = None
        \<and> api_get_account a = Inl (APIError msg)
        \<and> api_get_portfolio_history a ''1M'' ''1D'' = Inl (APIError msg')"
  then have g: "get_account_data a =
        (Inr (None, [], []), [St_error (''Error fetching data from Alpaca: '' @ msg)], [Get_account])"
    by (simp add: get_account_data_def fetch_failed_def)
  from h have p: "get_portfolio_history a =
        (Inr [], [St_error (''Error fetching portfolio history: '' @ msg')],
         [Get_portfolio_history ''1M'' ''1D''])"
    by (simp add: get_portfolio_history_def)
  from h show "script st rest clicked now sv =
        ((Completed,
          [St_title page_title, St_button ''Refresh Data'',
           St_error (''Error fetching data from Alpaca: '' @ msg),
           St_error (''Error fetching portfolio history: '' @ msg'),
           St_error ''Could not connect to Alpaca to fetch account data.'']),
         sv\<lparr>account_cache :=
               Some (now, (None, [], []), [St_error (''Error fetching data from Alpaca: '' @ msg)]),
             history_cache :=
               Some (now, [], [St_error (''Error fetching portfolio history: '' @ msg')]),
             remote_calls := remote_calls sv @ [Get_account, Get_portfolio_history ''1M'' ''1D''],
             log_lines := log_lines sv @ [connected_message]\<rparr>)"
    by (cases clicked)
       (simp_all add: script_def cached_get_account_data_def cached_get_portfolio_history_def
          cache_data_def cache_data_clear_def g p dashboard_def)
qed (simp_all add: get_account_data_def fetch_failed_def get_portfolio_history_def)


lemma demo_connect:
  "connect (demo_secrets (PStr ''100000.00'')) (paper_only a)
     = Inr (a, Finite False 6871947673600000 (- 36))"
  by (simp add: connect_def secret_def secret_base_url_def demo_secrets_def paper_url_def
      paper_only_def float_100000 del: py_float.simps)

theorem api_error_degrades_gracefully_witness:
  "script (demo_secrets (PStr ''100000.00''))
      (paper_only (demo_api\<lparr>api_get_account := Inl (APIError ''forbidden.''),
          api_get_portfolio_history := (\<lambda>period timeframe. Inl (APIError ''forbidden.''))\<rparr>))
      False 0 fresh_server =
        ((Completed,
          [St_title page_title, St_button ''Refresh Data'',
           St_error ''Error fetching data from Alpaca: forbidden.'',
           St_error ''Error fetching portfolio history: forbidden.'',
           St_error ''Could not connect to Alpaca to fetch account data.'']),
         \<lparr>account_cache =
               Some (0, (None, [], []), [St_error ''Error fetching data from Alpaca: forbidden.'']),
          history_cache =
               Some (0, [], [St_error ''Error fetching portfolio history: forbidden.'']),
          remote_calls = [Get_account, Get_portfolio_history ''1M'' ''1D''],
          log_lines = [connected_message]\<rparr>)"
  using api_error_degrades_gracefully [where a = "demo_api\<lparr>api_get_account := Inl (APIError ''forbidden.''),
          api_get_portfolio_history := (\<lambda>period timeframe. Inl (APIError ''forbidden.''))\<rparr>"
      and st = "demo_secrets (PStr ''100000.00'')" and msg = "''forbidden.''"
      and msg' = "''forbidden.''" and sv = fresh_server and now = 0 and clicked = False
      and tpc = "Finite False 6871947673600000 (- 36)"
      and rest = "paper_only (demo_api\<lparr>api_get_account := Inl (APIError ''forbidden.''),
          api_get_portfolio_history := (\<lambda>period timeframe. Inl (APIError ''forbidden.''))\<rparr>)"]
    demo_connect [of "demo_api\<lparr>api_get_account := Inl (APIError ''forbidden.''),
          api_get_portfolio_history := (\<lambda>period timeframe. Inl (APIError ''forbidden.''))\<rparr>"]
  by (simp add: fresh_server_def demo_api_def)

text \<open>
  A failure raised as any other exception (here a network fault of the HTTP library) is not
  handled: the run ends with the exception after the title and the button, with no message
  and no substitute.
\<close>

theorem network_fault_ends_run:
  "script (demo_secrets (PStr ''100000.00''))
      (paper_only (demo_api\<lparr>api_get_account := Inl (OtherError ''ConnectionError'')\<rparr>))
      False 0 fresh_server =
        ((Raised (OtherError ''ConnectionError''), [St_title page_title, St_button ''Refresh Data'']),
         \<lparr>account_cache = None, history_cache = None, remote_calls = [Get_account],
          log_lines = [connected_message]\<rparr>)"
  by (simp add: script_def demo_connect cached_get_account_data_def cache_data_def
      get_account_data_def fetch_failed_def fresh_server_def demo_api_def)


subsection \<open>The account guard\<close>



subsection \<open>The orders request and table\<close>










subsection \<open>The caches\<close>

lemma cached_account_miss:
  assumes "account_cache sv = None \<or> (\<exists>t0 v0 e0. account_cache sv = Some (t0, v0, e0) \<and> t0 + 300 \<le> t)"
  shows "fst (fst (cached_get_account_data t a sv)) = fst (get_account_data a)"
    and "remote_calls (snd (cached_get_account_data t a sv)) = remote_calls sv @ snd (snd (get_account_data a))"
    and "fst (get_account_data a) = Inr v \<Longrightarrow>
         account_cache (snd (cached_get_account_data t a sv)) = Some (t, v, fst (snd (get_account_data a)))"
  using assms
  by (auto simp: cached_get_account_data_def cache_data_def split: prod.splits sum.splits option.splits)

lemma cached_account_hit:
  assumes "account_cache sv = Some (t0, v, els)" and "t < t0 + 300"
  shows "cached_get_account_data t a sv = ((Inr v, els), sv)"
  using assms by (simp add: cached_get_account_data_def cache_data_def)

lemma cached_history_miss:
  assumes "history_cache sv = None \<or> (\<exists>t0 v0 e0. history_cache sv = Some (t0, v0, e0) \<and> t0 + 3600 \<le> t)"
  shows "fst (fst (cached_get_portfolio_history t a sv)) = fst (get_portfolio_history a)"
    and "remote_calls (snd (cached_get_portfolio_history t a sv))
          = remote_calls sv @ snd (snd (get_portfolio_history a))"
    and "fst (get_portfolio_history a) = Inr v \<Longrightarrow>
         history_cache (snd (cached_get_portfolio_history t a sv))
           = Some (t, v, fst (snd (get_portfolio_history a)))"
  using assms
  by (auto simp: cached_get_portfolio_history_def cache_data_def split: prod.splits sum.splits option.splits)

lemma cached_history_hit:
  assumes "history_cache sv = Some (t0, v, els)" and "t < t0 + 3600"
  shows "cached_get_portfolio_history t a sv = ((Inr v, els), sv)"
  using assms by (simp add: cached_get_portfolio_history_def cache_data_def)

lemma script_refresh:
  assumes "connect st rest = Inr (a, tpc)"
  shows "script st rest True now sv = script st rest False now (cache_data_clear sv)"
proof -
  have 1: "cache_data_clear (sv\<lparr>log_lines := l\<rparr>) = (cache_data_clear sv)\<lparr>log_lines := l\<rparr>" for l
    by (simp add: cache_data_clear_def)
  have 2: "log_lines (cache_data_clear sv) = log_lines sv"
    by (simp add: cache_data_clear_def)
  from assms show ?thesis
    by (simp add: script_def 1 2)
qed

text \<open>
  Claim C5. After a call of the account fetch at time \<open>t1\<close> that went to the remote
  interface and returned, a call before \<open>t1 + 300\<close> returns the same data and elements
  and leaves the server state as it is: no remote call. A call at \<open>t1 + 300\<close> or later,
  and any call after \<^verbatim>\<open>st.cache_data.clear()\<close>, returns what a fresh fetch returns and
  adds its remote calls, of which \<^verbatim>\<open>get_account\<close> is the first. The same holds for the
  history fetch with 3600 seconds. Clearing empties both caches, and a run with the button
  clicked is a run on the cleared caches.
\<close>

theorem cache_ttl_and_refresh:
  "((account_cache sv = None \<or> (\<exists>t0 v0 e0. account_cache sv = Some (t0, v0, e0) \<and> t0 + 300 \<le> t1))
      \<and> cached_get_account_data t1 a sv = ((Inr v, els), sv1) \<longrightarrow>
        (t2 < t1 + 300 \<longrightarrow> cached_get_account_data t2 a' sv1 = ((Inr v, els), sv1))
      \<and> (t1 + 300 \<le> t2 \<longrightarrow>
           fst (fst (cached_get_account_data t2 a' sv1)) = fst (get_account_data a')
         \<and> remote_calls (snd (cached_get_account_data t2 a' sv1))
             = remote_calls sv1 @ snd (snd (get_account_data a')))
      \<and> fst (fst (cached_get_account_data t2 a' (cache_data_clear sv1))) = fst (get_account_data a')
      \<and> remote_calls (snd (cached_get_account_data t2 a' (cache_data_clear sv1)))
             = remote_calls sv1 @ snd (snd (get_account_data a')))
   \<and> ((history_cache sv = None \<or> (\<exists>t0 v0 e0. history_cache sv = Some (t0, v0, e0) \<and> t0 + 3600 \<le> t1))
      \<and> cached_get_portfolio_history t1 a sv = ((Inr h, els), sv1) \<longrightarrow>
        (t2 < t1 + 3600 \<longrightarrow> cached_get_portfolio_history t2 a' sv1 = ((Inr h, els), sv1))
      \<and> (t1 + 3600 \<le> t2 \<longrightarrow>
           fst (fst (cached_get_portfolio_history t2 a' sv1)) = fst (get_portfolio_history a')
         \<and> remote_calls (snd (cached_get_portfolio_history t2 a' sv1))
             = remote_calls sv1 @ [Get_portfolio_history ''1M'' ''1D''])
      \<and> fst (fst (cached_get_portfolio_history t2 a' (cache_data_clear sv1)))
             = fst (get_portfolio_history a')
      \<and> remote_calls (snd (cached_get_portfolio_history t2 a' (cache_data_clear sv1)))
             = remote_calls sv1 @ [Get_portfolio_history ''1M'' ''1D''])
   \<and> take 1 (snd (snd (get_account_data a'))) = [Get_account]
   \<and> account_cache (cache_data_clear sv) = None \<and> history_cache (cache_data_clear sv) = None
   \<and> (connect st rest = Inr (a, tpc) \<longrightarrow>
        script st rest True now sv = script st rest False now (cache_data_clear sv))"
proof (intro conjI impI)
  show "take 1 (snd (snd (get_account_data a'))) = [Get_account]"
    by (rule get_account_data_first_call)
  show "account_cache (cache_data_clear sv) = None" "history_cache (cache_data_clear sv) = None"
    by (simp_all add: cache_data_clear_def)
next
  assume "connect st rest = Inr (a, tpc)"
  then show "script st rest True now sv = script st rest False now (cache_data_clear sv)"
    by (rule script_refresh)
next
  assume h: "(account_cache sv = None \<or> (\<exists>t0 v0 e0. account_cache sv = Some (t0, v0, e0) \<and> t0 + 300 \<le> t1))
      \<and> cached_get_account_data t1 a sv = ((Inr v, els), sv1)"
  then have m: "account_cache sv = None \<or> (\<exists>t0 v0 e0. account_cache sv = Some (t0, v0, e0) \<and> t0 + 300 \<le> t1)"
    and c: "cached_get_account_data t1 a sv = ((Inr v, els), sv1)" by blast+
  from cached_account_miss(1) [OF m, of a] c have r: "fst (get_account_data a) = Inr v" by simp
  from c have "els = fst (snd (get_account_data a))"
    using m by (auto simp: cached_get_account_data_def cache_data_def split: prod.splits sum.splits option.splits)
  with cached_account_miss(3) [OF m r] c have entry: "account_cache sv1 = Some (t1, v, els)" by simp
  { assume "t2 < t1 + 300"
    with entry show "cached_get_account_data t2 a' sv1 = ((Inr v, els), sv1)"
      by (rule cached_account_hit) }
  { assume "t1 + 300 \<le> t2"
    with entry have "account_cache sv1 = None \<or> (\<exists>t0 v0 e0. account_cache sv1 = Some (t0, v0, e0) \<and> t0 + 300 \<le> t2)"
      by blast
    from cached_account_miss(1,2) [OF this]
    show "fst (fst (cached_get_account_data t2 a' sv1)) = fst (get_account_data a')"
      and "remote_calls (snd (cached_get_account_data t2 a' sv1))
             = remote_calls sv1 @ snd (snd (get_account_data a'))" by simp_all }
  have cl: "account_cache (cache_data_clear sv1) = None \<or>
      (\<exists>t0 v0 e0. account_cache (cache_data_clear sv1) = Some (t0, v0, e0) \<and> t0 + 300 \<le> t2)"
    by (simp add: cache_data_clear_def)
  from cached_account_miss(1,2) [OF cl, of a']
  show "fst (fst (cached_get_account_data t2 a' (cache_data_clear sv1))) = fst (get_account_data a')"
    and "remote_calls (snd (cached_get_account_data t2 a' (cache_data_clear sv1)))
             = remote_calls sv1 @ snd (snd (get_account_data a'))"
    by (simp_all add: cache_data_clear_def)
next
  assume h: "(history_cache sv = None \<or> (\<exists>t0 v0 e0. history_cache sv = Some (t0, v0, e0) \<and> t0 + 3600 \<le> t1))
      \<and> cached_get_portfolio_history t1 a sv = ((Inr h, els), sv1)"
  then have m: "history_cache sv = None \<or> (\<exists>t0 v0 e0. history_cache sv = Some (t0, v0, e0) \<and> t0 + 3600 \<le> t1)"
    and c: "cached_get_portfolio_history t1 a sv = ((Inr h, els), sv1)" by blast+
  from cached_history_miss(1) [OF m, of a] c have r: "fst (get_portfolio_history a) = Inr h" by simp
  from c have "els = fst (snd (get_portfolio_history a))"
    using m by (auto simp: cached_get_portfolio_history_def cache_data_def split: prod.splits sum.splits option.splits)
  with cached_history_miss(3) [OF m r] c have entry: "history_cache sv1 = Some (t1, h, els)" by simp
  { assume "t2 < t1 + 3600"
    with entry show "cached_get_portfolio_history t2 a' sv1 = ((Inr h, els), sv1)"
      by (rule cached_history_hit) }
  { assume "t1 + 3600 \<le> t2"
    with entry have "history_cache sv1 = None \<or> (\<exists>t0 v0 e0. history_cache sv1 = Some (t0, v0, e0) \<and> t0 + 3600 \<le> t2)"
      by blast
    from cached_history_miss(1,2) [OF this]
    show "fst (fst (cached_get_portfolio_history t2 a' sv1)) = fst (get_portfolio_history a')"
      and "remote_calls (snd (cached_get_portfolio_history t2 a' sv1))
             = remote_calls sv1 @ [Get_portfolio_history ''1M'' ''1D'']"
      by (simp_all add: get_portfolio_history_call) }
  have cl: "history_cache (cache_data_clear sv1) = None \<or>
      (\<exists>t0 v0 e0. history_cache (cache_data_clear sv1) = Some (t0, v0, e0) \<and> t0 + 3600 \<le> t2)"
    by (simp add: cache_data_clear_def)
  from cached_history_miss(1,2) [OF cl, of a']
  show "fst (fst (cached_get_portfolio_history t2 a' (cache_data_clear sv1)))
             = fst (get_portfolio_history a')"
    and "remote_calls (snd (cached_get_portfolio_history t2 a' (cache_data_clear sv1)))
             = remote_calls sv1 @ [Get_portfolio_history ''1M'' ''1D'']"
    by (simp_all add: cache_data_clear_def get_portfolio_history_call)
qed


lemma first_account_fetch:
  "cached_get_account_data 0 demo_api fresh_server
     = ((Inr (Some demo_account, [], []), []), served_account)"
  by (simp add: cached_get_account_data_def cache_data_def get_account_data_def demo_api_def
      fresh_server_def served_account_def)

lemma first_history_fetch:
  "cached_get_portfolio_history 0 demo_api fresh_server = ((Inr [], []), served_history)"
  by (simp add: cached_get_portfolio_history_def cache_data_def get_portfolio_history_def
      history_frame_def demo_api_def fresh_server_def served_history_def)

theorem cache_ttl_and_refresh_witness:
  "cached_get_account_data 299 down_api served_account
     = ((Inr (Some demo_account, [], []), []), served_account)
   \<and> remote_calls (snd (cached_get_account_data 300 down_api served_account))
     = [Get_account, List_positions, List_orders ''closed'' 100 ''desc'', Get_account]
   \<and> remote_calls (snd (cached_get_account_data 1 down_api (cache_data_clear served_account)))
     = [Get_account, List_positions, List_orders ''closed'' 100 ''desc'', Get_account]
   \<and> cached_get_portfolio_history 3599 down_api served_history = ((Inr [], []), served_history)
   \<and> remote_calls (snd (cached_get_portfolio_history 3600 down_api served_history))
     = [Get_portfolio_history ''1M'' ''1D'', Get_portfolio_history ''1M'' ''1D'']
   \<and> script (demo_secrets (PStr ''100000.00'')) (paper_only demo_api) True 1 served_account
     = script (demo_secrets (PStr ''100000.00'')) (paper_only demo_api) False 1
         (cache_data_clear served_account)"
proof -
  have fresh: "account_cache fresh_server = None" "history_cache fresh_server = None"
    by (simp_all add: fresh_server_def)
  have calls: "snd (snd (get_account_data down_api)) = [Get_account]"
    by (simp add: get_account_data_def fetch_failed_def down_api_def demo_api_def)
  have rc: "remote_calls served_account
      = [Get_account, List_positions, List_orders ''closed'' 100 ''desc'']"
    "remote_calls served_history = [Get_portfolio_history ''1M'' ''1D'']"
    by (simp_all add: served_account_def served_history_def)
  note a = cache_ttl_and_refresh [where sv = fresh_server and ?t1.0 = 0 and a = demo_api
      and v = "(Some demo_account, [], [])" and h = "[]" and els = "[]" and a' = down_api
      and st = "demo_secrets (PStr ''100000.00'')" and rest = "paper_only demo_api"
      and tpc = "Finite False 6871947673600000 (- 36)" and now = 1]
  from a [where ?t2.0 = 299 and ?sv1.0 = served_account] fresh first_account_fetch
  have 1: "cached_get_account_data 299 down_api served_account
     = ((Inr (Some demo_account, [], []), []), served_account)"
    by simp
  from a [where ?t2.0 = 300 and ?sv1.0 = served_account] fresh first_account_fetch calls rc
  have 2: "remote_calls (snd (cached_get_account_data 300 down_api served_account))
     = [Get_account, List_positions, List_orders ''closed'' 100 ''desc'', Get_account]"
    by simp
  from a [where ?t2.0 = 1 and ?sv1.0 = served_account] fresh first_account_fetch calls rc
  have 3: "remote_calls (snd (cached_get_account_data 1 down_api (cache_data_clear served_account)))
     = [Get_account, List_positions, List_orders ''closed'' 100 ''desc'', Get_account]"
    by simp
  from a [where ?t2.0 = 3599 and ?sv1.0 = served_history] fresh first_history_fetch
  have 4: "cached_get_portfolio_history 3599 down_api served_history
      = ((Inr [], []), served_history)"
    by simp
  from a [where ?t2.0 = 3600 and ?sv1.0 = served_history] fresh first_history_fetch rc
  have 5: "remote_calls (snd (cached_get_portfolio_history 3600 down_api served_history))
     = [Get_portfolio_history ''1M'' ''1D'', Get_portfolio_history ''1M'' ''1D'']"
    by simp
  from cache_ttl_and_refresh [where sv = served_account and a = demo_api and now = 1
      and st = "demo_secrets (PStr ''100000.00'')" and rest = "paper_only demo_api"
      and tpc = "Finite False 6871947673600000 (- 36)"]
    demo_connect [of demo_api]
  have 6: "script (demo_secrets (PStr ''100000.00'')) (paper_only demo_api) True 1 served_account
     = script (demo_secrets (PStr ''100000.00'')) (paper_only demo_api) False 1
         (cache_data_clear served_account)"
    by blast
  from 1 2 3 4 5 6 show ?thesis by blast
qed


section \<open>Conversion of decimal numerals\<close>

text \<open>
  \<^verbatim>\<open>float\<close> reads the numeral of \<open>c\<close> hundredths as the decimal \<open>c \<sqdot> 10\<^sup>-\<^sup>2\<close> and returns the
  binary64 number nearest to \<open>c / 100\<close>.
\<close>

lemma digit_char_cases:
  assumes "0 \<le> d" "d < 10"
  shows "d = 0 \<or> d = 1 \<or> d = 2 \<or> d = 3 \<or> d = 4 \<or> d = 5 \<or> d = 6 \<or> d = 7 \<or> d = 8 \<or> d = (9::int)"
  using assms by arith

lemma digit_char_props:
  assumes "0 \<le> d" "d < 10"
  shows "is_digit (digit_char d)" and "digit_val (digit_char d) = d"
    and "\<not> is_space (digit_char d)" and "digit_char d \<noteq> CHR ''-''" and "digit_char d \<noteq> CHR ''+''"
    and "to_lower (digit_char d) = digit_char d"
    and "digit_char d \<noteq> CHR ''i''" and "digit_char d \<noteq> CHR ''n''"
  using digit_char_cases [OF assms]
  by (auto simp: digit_char_def is_digit_def digit_val_def is_space_def to_lower_def is_upper_def)

lemma digits_nonempty: "digits n \<noteq> []"
  by (subst digits.simps) simp

lemma digits_all_digit: "0 \<le> n \<Longrightarrow> list_all is_digit (digits n)"
proof (induction n rule: digits.induct)
  case (1 n)
  show ?case
  proof (cases "n < 10")
    case True
    with "1.prems" show ?thesis
      by (subst digits.simps) (simp add: digit_char_props)
  next
    case False
    with "1.prems" have "0 \<le> n div 10" "0 \<le> n mod 10" "n mod 10 < 10" by simp_all
    with False "1.IH" show ?thesis
      by (subst digits.simps) (simp add: digit_char_props)
  qed
qed

lemma digits_val_snoc: "digits_val (ds @ [c]) = 10 * digits_val ds + digit_val c"
  by (simp add: digits_val_def)

lemma digits_val_digits: "0 \<le> n \<Longrightarrow> digits_val (digits n) = n"
proof (induction n rule: digits.induct)
  case (1 n)
  show ?case
  proof (cases "n < 10")
    case True
    with "1.prems" show ?thesis
      by (subst digits.simps) (simp add: digits_val_def digit_char_props)
  next
    case False
    with "1.prems" have "0 \<le> n div 10" "0 \<le> n mod 10" "n mod 10 < 10" by simp_all
    with False "1.IH" show ?thesis
      by (subst digits.simps) (simp add: digits_val_snoc digit_char_props)
  qed
qed

lemma hd_digits: "0 \<le> n \<Longrightarrow> is_digit (hd (digits n))"
  using digits_all_digit [of n] digits_nonempty [of n]
  by (cases "digits n") simp_all


lemma digitpart_tail_digits:
  assumes "list_all is_digit ds" "rest = [] \<or> (\<not> is_digit (hd rest) \<and> hd rest \<noteq> CHR ''_'')"
  shows "digitpart_tail (ds @ rest) = (ds, rest)"
  using assms
proof (induction ds)
  case Nil
  then show ?case
    by (cases rest rule: digitpart_tail.cases) auto
next
  case (Cons x xs)
  then have ih: "digitpart_tail (xs @ rest) = (xs, rest)" and x: "is_digit x" by simp_all
  show ?case
  proof (cases "xs @ rest")
    case Nil
    with x show ?thesis by simp
  next
    case (Cons d cs)
    have "digitpart_tail (x # d # cs) = (x # xs, rest)"
      using x ih unfolding Cons by simp
    then show ?thesis by (simp add: Cons)
  qed
qed

lemma digitpart_digits:
  assumes "ds \<noteq> []" "list_all is_digit ds"
    "rest = [] \<or> (\<not> is_digit (hd rest) \<and> hd rest \<noteq> CHR ''_'')"
  shows "digitpart (ds @ rest) = (ds, rest)"
proof (cases ds)
  case Nil
  with assms show ?thesis by simp
next
  case (Cons x xs)
  with assms have "is_digit x" "list_all is_digit xs" by simp_all
  with digitpart_tail_digits [OF this(2) assms(3)] show ?thesis
    by (simp add: Cons)
qed

lemma strip_id:
  assumes "s \<noteq> []" "\<not> is_space (hd s)" "\<not> is_space (last s)"
  shows "strip s = s"
proof -
  from assms have 1: "dropWhile is_space s = s"
    by (cases s) simp_all
  from assms have "rev s \<noteq> []" "\<not> is_space (hd (rev s))"
    by (simp_all add: hd_rev)
  then have "dropWhile is_space (rev s) = rev s"
    by (cases "rev s") simp_all
  with 1 show ?thesis by (simp add: strip_def)
qed

lemma pad2_props:
  assumes "0 \<le> f" "f < 100"
  shows "list_all is_digit (pad2 f)" and "length (pad2 f) = 2" and "pad2 f \<noteq> []"
    and "\<not> is_space (last (pad2 f))"
    and "digits_val (ds @ pad2 f) = 100 * digits_val ds + f"
proof -
  from assms have d: "0 \<le> f div 10" "f div 10 < 10" "0 \<le> f mod 10" "f mod 10 < 10"
    by simp_all
  then show "list_all is_digit (pad2 f)" "length (pad2 f) = 2" "pad2 f \<noteq> []"
    "\<not> is_space (last (pad2 f))"
    by (simp_all add: pad2_def digit_char_props)
  have "digits_val (ds @ pad2 f) = 10 * (10 * digits_val ds + f div 10) + f mod 10"
    using d by (simp add: pad2_def digits_val_def digit_char_props)
  then show "digits_val (ds @ pad2 f) = 100 * digits_val ds + f"
    by simp
qed

lemma parse_float_cents_text:
  assumes "0 \<le> c"
  shows "parse_float (cents_text c) = Some (LNum False c (- 2))"
proof -
  let ?ip = "digits (c div 100)"
  let ?fp = "pad2 (c mod 100)"
  from assms have i: "0 \<le> c div 100" and f: "0 \<le> c mod 100" "c mod 100 < 100"
    by simp_all
  obtain x xs where ip: "?ip = x # xs"
    using digits_nonempty [of "c div 100"] by (cases ?ip) auto
  from digits_all_digit [OF i] have x: "is_digit x" by (simp add: ip)
  then have xn: "\<not> is_space x" "x \<noteq> CHR ''-''" "x \<noteq> CHR ''+''" "to_lower x = x"
      "x \<noteq> CHR ''i''" "x \<noteq> CHR ''n''"
    by (auto simp: is_digit_def is_space_def to_lower_def is_upper_def Let_def)
  have shape: "cents_text c = x # (xs @ ''.'' @ ?fp)"
    by (simp add: cents_text_def ip)
  have lst: "last (cents_text c) = last ?fp"
    using pad2_props(3) [OF f] by (simp add: cents_text_def)
  have st: "strip (cents_text c) = cents_text c"
  proof (rule strip_id)
    show "cents_text c \<noteq> []" by (simp add: shape)
    show "\<not> is_space (hd (cents_text c))" using xn by (simp add: shape)
    show "\<not> is_space (last (cents_text c))" using pad2_props(4) [OF f] by (simp add: lst)
  qed
  have dp1: "digitpart (cents_text c) = (?ip, ''.'' @ ?fp)"
    unfolding cents_text_def
    using digits_nonempty digits_all_digit [OF i]
    by (intro digitpart_digits) (simp_all add: is_digit_def)
  have dp2: "digitpart ?fp = (?fp, [])"
    using digitpart_digits [OF pad2_props(3) [OF f] pad2_props(1) [OF f], of "[]"] by simp
  have dv: "digits_val (?ip @ ?fp) = c"
    using pad2_props(5) [OF f, of ?ip] digits_val_digits [OF i] by simp
  have fn: "floatnumber False (cents_text c) = Some (LNum False c (- 2))"
    by (simp add: floatnumber_def dp1 dp2 dv pad2_props(2) [OF f] pad2_props(3) [OF f])
  have neg: "(case cents_text c of y # _ \<Rightarrow> y = CHR ''-'' | [] \<Rightarrow> False) = False"
    by (simp add: shape xn)
  have sg: "(case cents_text c of y # _ \<Rightarrow> y = CHR ''-'' \<or> y = CHR ''+'' | [] \<Rightarrow> False) = False"
    by (simp add: shape xn)
  have low: "map to_lower (cents_text c) \<noteq> ''inf''" "map to_lower (cents_text c) \<noteq> ''infinity''"
    "map to_lower (cents_text c) \<noteq> ''nan''"
    by (simp_all add: shape xn)
  show ?thesis
    unfolding parse_float_def st Let_def neg sg
    by (simp add: low fn)
qed

lemma py_float_cents_text:
  assumes "0 \<le> c"
  shows "py_float (PStr (cents_text c)) = Inr (to_double False c 100)"
  by (simp add: parse_float_cents_text [OF assms])

section \<open>Rounding error of the binary64 operations\<close>

text \<open>
  The conversions and the subtraction round to 53 significant bits. Below \<open>2\<^sup>4\<^sup>0\<close> the
  spacing of binary64 numbers is at most \<open>2\<^sup>-\<^sup>1\<^sup>3\<close>, so each rounding moves a value by at
  most \<open>2\<^sup>-\<^sup>1\<^sup>4\<close>: three roundings cannot move a difference of two amounts of whole
  cents as far as half a cent.
\<close>

lemma round_half_even_error:
  assumes "0 < b"
  shows "\<bar>2 * (round_half_even a b * b - a)\<bar> \<le> b"
proof -
  define q where "q = a div b"
  define r where "r = a mod b"
  have a: "a = q * b + r" by (simp add: q_def r_def)
  have r: "0 \<le> r" "r < b" using assms by (simp_all add: r_def)
  show ?thesis
    unfolding round_half_even_def Let_def q_def [symmetric] r_def [symmetric]
    using r by (auto simp: a algebra_simps)
qed

lemma round_half_even_nonneg:
  assumes "0 < b" "0 \<le> a"
  shows "0 \<le> round_half_even a b"
  using assms by (auto simp: round_half_even_def Let_def pos_imp_zdiv_nonneg_iff)

lemma round_half_even_zero: "0 < b \<Longrightarrow> round_half_even 0 b = 0"
  by (simp add: round_half_even_def)

lemma bit_length_bounds:
  "0 < n \<Longrightarrow> 2 ^ (bit_length n - 1) \<le> n \<and> n < 2 ^ bit_length n"
proof (induction n rule: bit_length.induct)
  case (1 n)
  show ?case
  proof (cases "n = 1")
    case True
    then show ?thesis by (simp add: bit_length.simps)
  next
    case False
    with "1.prems" have h: "0 < n div 2" by simp
    with "1.IH" "1.prems" have ih: "2 ^ (bit_length (n div 2) - 1) \<le> n div 2" "n div 2 < 2 ^ bit_length (n div 2)"
      by simp_all
    from h have pos: "0 < bit_length (n div 2)"
      by (simp add: bit_length.simps [of "n div 2"])
    have bl: "bit_length n = Suc (bit_length (n div 2))"
      using "1.prems" by (simp add: bit_length.simps [of n])
    from pos have "(2::int) ^ bit_length (n div 2) = 2 * 2 ^ (bit_length (n div 2) - 1)"
      by (cases "bit_length (n div 2)") simp_all
    moreover have "2 * (n div 2) \<le> n" "n \<le> 2 * (n div 2) + 1"
      by presburger+
    ultimately show ?thesis
      using ih unfolding bl by simp
  qed
qed

lemma pow2_le_iff:
  assumes "0 < d"
  shows "pow2_le k n d \<longleftrightarrow> (2::rat) powi k \<le> of_int n / of_int d"
proof (cases "0 \<le> k")
  case True
  have "(of_int d * 2 ^ nat k \<le> (of_int n :: rat)) = (d * 2 ^ nat k \<le> n)"
    by (metis of_int_le_iff of_int_mult of_int_numeral of_int_power)
  with True assms show ?thesis
    by (simp add: pow2_le_def power_int_nonneg_exp pos_le_divide_eq mult.commute)
next
  case False
  then have k: "(2::rat) powi k = 1 / 2 ^ nat (- k)"
    by (simp add: power_int_def field_simps)
  have "(of_int d \<le> (of_int n :: rat) * 2 ^ nat (- k)) = (d \<le> n * 2 ^ nat (- k))"
    by (metis of_int_le_iff of_int_mult of_int_numeral of_int_power)
  with False assms show ?thesis
    by (simp add: pow2_le_def k field_simps)
qed


lemma bit_length_pos: "0 < n \<Longrightarrow> 0 < bit_length n"
  by (simp add: bit_length.simps [of n])

lemma leading_exponent_le:
  assumes "0 < n" "0 < d"
  shows "(2::rat) powi leading_exponent n d \<le> of_int n / of_int d"
proof (cases "pow2_le (int (bit_length n) - int (bit_length d)) n d")
  case True
  with assms show ?thesis by (simp add: leading_exponent_def pow2_le_iff)
next
  case False
  from bit_length_bounds [OF assms(1)] have n: "(2::int) ^ (bit_length n - 1) \<le> n" by simp
  from bit_length_bounds [OF assms(2)] have d: "d < 2 ^ bit_length d" by simp
  from n have n': "(2::rat) ^ (bit_length n - 1) \<le> of_int n"
    by (metis of_int_le_iff of_int_numeral of_int_power)
  from d have d': "(of_int d :: rat) \<le> 2 ^ bit_length d"
    by (metis less_imp_le of_int_le_iff of_int_numeral of_int_power)
  from bit_length_pos [OF assms(1)] obtain b where b: "bit_length n = Suc b"
    by (cases "bit_length n") simp_all
  have "int (bit_length n) - int (bit_length d) - 1 = int b - int (bit_length d)"
    by (simp add: b)
  moreover have "(2::rat) powi (int b - int (bit_length d))
      = 2 powi (int b) / 2 powi (int (bit_length d))"
    by (rule power_int_diff) simp
  ultimately have "(2::rat) powi (int (bit_length n) - int (bit_length d) - 1)
      = 2 ^ (bit_length n - 1) / 2 ^ bit_length d"
    by (simp add: b)
  also have "\<dots> \<le> of_int n / 2 ^ bit_length d"
    using n' by (simp add: divide_right_mono)
  also have "\<dots> \<le> of_int n / of_int d"
    using d' assms by (simp add: divide_left_mono)
  finally show ?thesis using False by (simp add: leading_exponent_def)
qed

lemma significand_error:
  assumes "0 < d" "e < 0"
  shows "\<bar>of_int (significand n d e) * 2 powi e - of_int n / of_int d\<bar> \<le> (2 powi e / 2 :: rat)"
proof -
  define P :: int where "P = 2 ^ nat (- e)"
  define m where "m = significand n d e"
  have m: "m = round_half_even (n * P) d"
    using assms by (simp add: m_def significand_def P_def)
  have Ppos: "0 < P" by (simp add: P_def)
  have pe: "(2::rat) powi e = 1 / of_int P"
    using assms by (simp add: P_def power_int_def field_simps)
  from round_half_even_error [OF assms(1), of "n * P"]
  have "\<bar>2 * (m * d - n * P)\<bar> \<le> d" by (simp add: m)
  then have "(of_int \<bar>2 * (m * d - n * P)\<bar> :: rat) \<le> of_int d"
    by (simp only: of_int_le_iff)
  then have "\<bar>2 * (of_int m * of_int d - of_int n * of_int P)\<bar> \<le> (of_int d :: rat)"
    by simp
  then have i: "\<bar>of_int m * of_int d - of_int n * of_int P\<bar> \<le> (of_int d / 2 :: rat)"
    by (simp only: abs_mult) simp
  have dP: "(0::rat) < of_int d * of_int P" using assms Ppos by simp
  have "of_int m * 2 powi e - of_int n / of_int d
      = (of_int m * of_int d - of_int n * of_int P) / (of_int d * of_int P :: rat)"
    using assms Ppos by (simp add: pe field_simps)
  then have "\<bar>of_int m * 2 powi e - of_int n / of_int d\<bar>
      = \<bar>of_int m * of_int d - of_int n * of_int P\<bar> / (of_int d * of_int P :: rat)"
    using dP by simp
  also have "\<dots> \<le> (of_int d / 2) / (of_int d * of_int P)"
    using i dP by (intro divide_right_mono) simp_all
  also have "\<dots> = 2 powi e / 2"
    using assms by (simp add: pe)
  finally show ?thesis by (simp add: m_def)
qed

lemma significand_nonneg:
  assumes "0 \<le> n" "0 < d"
  shows "0 \<le> significand n d e"
  using assms by (simp add: significand_def round_half_even_nonneg)


lemma to_double_small:
  assumes "0 \<le> n" "0 < d" "of_int n / of_int d < (2::rat) ^ 40"
  shows "\<exists>m e. to_double s n d = Finite s m e \<and> 0 \<le> m \<and> e \<le> - 12
           \<and> \<bar>of_int m * 2 powi e - of_int n / of_int d\<bar> \<le> (1 / 2 ^ 14 :: rat)"
proof (cases "n = 0")
  case True
  then show ?thesis by (simp add: to_double_def)
next
  case False
  with assms have npos: "0 < n" by simp
  let ?k = "leading_exponent n d"
  let ?e = "max (?k - 52) (- 1074)"
  let ?m = "significand n d ?e"
  from leading_exponent_le [OF npos assms(2)] assms(3)
  have "(2::rat) powi ?k < 2 powi 40" by simp
  then have "?k < 40" by (rule power_int_le_imp_less_exp [rotated]) simp_all
  then have e: "?e \<le> - 13" by simp
  have "(2::rat) powi ?e \<le> 2 powi (- 13)"
    using e by (intro power_int_increasing) simp_all
  then have pe: "(2::rat) powi ?e / 2 \<le> 1 / 2 ^ 14"
    by (simp add: power_int_minus_divide)
  from e have "?e < 0" by linarith
  from significand_error [OF assms(2) this, of n] pe
  have err: "\<bar>of_int ?m * 2 powi ?e - of_int n / of_int d\<bar> \<le> (1 / 2 ^ 14 :: rat)"
    by linarith
  have mnn: "0 \<le> ?m" using assms(1,2) by (rule significand_nonneg)
  show ?thesis
  proof (cases "?m = 2 ^ 53")
    case True
    from e have "\<not> 971 < ?e + 1" by linarith
    with True False have td: "to_double s n d = Finite s (2 ^ 52) (?e + 1)"
      unfolding to_double_def Let_def by (simp only: if_True if_False simp_thms)
    have p1: "(2::rat) powi (?e + 1) = 2 powi ?e * 2"
      by (rule power_int_add_1) simp
    have gen: "of_int (2 ^ 52 :: int) * (x * 2) = of_int (2 ^ 53 :: int) * (x::rat)" for x
      by simp
    have "of_int (2 ^ 52 :: int) * (2::rat) powi (?e + 1) = of_int ?m * 2 powi ?e"
      unfolding p1 gen True ..
    with err have e52: "\<bar>of_int (2 ^ 52 :: int) * 2 powi (?e + 1) - of_int n / of_int d\<bar>
        \<le> (1 / 2 ^ 14 :: rat)"
      by (simp only:)
    from e have e12: "?e + 1 \<le> - 12" by linarith
    have nn: "(0::int) \<le> 2 ^ 52" by simp
    from td nn e12 e52 show ?thesis by blast
  next
    case False
    from e have "\<not> 971 < ?e" by linarith
    with False \<open>n \<noteq> 0\<close> have td: "to_double s n d = Finite s ?m ?e"
      unfolding to_double_def Let_def by (simp only: if_True if_False simp_thms)
    moreover from e have "?e \<le> - 12" by linarith
    ultimately show ?thesis
      using err mnn by blast
  qed
qed


lemma round_half_even_unique:
  assumes "0 < b" "\<bar>of_int a / of_int b - of_int T\<bar> < (1 / 2 :: rat)"
  shows "round_half_even a b = T"
proof -
  let ?c = "round_half_even a b"
  from round_half_even_error [OF assms(1), of a]
  have "(of_int \<bar>2 * (?c * b - a)\<bar> :: rat) \<le> of_int b"
    by (simp only: of_int_le_iff)
  then have "\<bar>2 * (of_int ?c * of_int b - of_int a)\<bar> \<le> (of_int b :: rat)"
    by simp
  then have i: "\<bar>of_int ?c * of_int b - of_int a\<bar> \<le> (of_int b / 2 :: rat)"
    by (simp only: abs_mult) simp
  have b: "(0::rat) < of_int b" using assms by simp
  have "of_int ?c - of_int a / of_int b = (of_int ?c * of_int b - of_int a) / (of_int b :: rat)"
    using b by (simp add: field_simps)
  then have "\<bar>of_int ?c - of_int a / of_int b\<bar> = \<bar>of_int ?c * of_int b - of_int a\<bar> / (of_int b :: rat)"
    using b by simp
  also have "\<dots> \<le> (of_int b / 2) / of_int b"
    using i b by (intro divide_right_mono) simp_all
  also have "\<dots> = 1 / 2" using b by simp
  finally have "\<bar>of_int ?c - of_int a / of_int b\<bar> \<le> (1 / 2 :: rat)" .
  with assms(2) have "\<bar>(of_int ?c :: rat) - of_int T\<bar> < 1" by linarith
  then have "\<bar>(of_int (?c - T) :: rat)\<bar> < of_int 1" by simp
  then have "\<bar>?c - T\<bar> < 1"
    by (simp only: of_int_abs [symmetric] of_int_less_iff)
  then show ?thesis by linarith
qed

lemma cents_of_unique:
  assumes "e < 0" "\<bar>of_int m * 2 powi e * 100 - of_int T\<bar> < (1 / 2 :: rat)"
  shows "cents_of m e = T"
proof -
  have pe: "(2::rat) powi e = 1 / of_int (2 ^ nat (- e))"
    using assms(1) by (simp add: power_int_def field_simps)
  have "of_int (m * 100) / of_int (2 ^ nat (- e)) = (of_int m * 2 powi e * 100 :: rat)"
    by (simp add: pe)
  with assms(2) have "\<bar>of_int (m * 100) / of_int (2 ^ nat (- e)) - of_int T\<bar> < (1 / 2 :: rat)"
    by (simp only:)
  then have "round_half_even (m * 100) (2 ^ nat (- e)) = T"
    by (rule round_half_even_unique [rotated]) simp
  with assms(1) show ?thesis by (simp add: cents_of_def)
qed


lemma scale_up:
  assumes "e0 \<le> e"
  shows "of_int (m * 2 ^ nat (e - e0)) * (2::rat) powi e0 = of_int m * 2 powi e"
proof -
  have "(2::rat) powi e = 2 powi (e - e0) * 2 powi e0"
    by (subst power_int_add [symmetric]) simp_all
  also have "(2::rat) powi (e - e0) = 2 ^ nat (e - e0)"
    using assms by (simp add: power_int_nonneg_exp)
  finally show ?thesis by simp
qed

lemma cents_close:
  fixes x d t :: rat
  assumes "\<bar>x - d\<bar> \<le> 1 / 16384" "\<bar>d - t / 100\<bar> \<le> 2 / 16384"
  shows "\<bar>x * 100 - t\<bar> < 1 / 2"
  using assms by linarith

lemma value_close:
  fixes x a b va vb :: rat
  assumes "\<bar>x - \<bar>va - vb\<bar>\<bar> \<le> 1 / 16384" "\<bar>va - a\<bar> \<le> 1 / 16384" "\<bar>vb - b\<bar> \<le> 1 / 16384"
  shows "va < vb \<Longrightarrow> \<bar>- x - (a - b)\<bar> \<le> 3 / 16384"
    and "\<not> va < vb \<Longrightarrow> \<bar>x - (a - b)\<bar> \<le> 3 / 16384"
  using assms by linarith+

lemma float_sub_cents:
  assumes "0 \<le> A" "A < 10 ^ 14" "0 \<le> B" "B < 10 ^ 14"
  shows "format_2f g (float_sub (to_double False A 100) (to_double False B 100))
           = fixed2 g (A < B) \<bar>A - B\<bar>
       \<and> \<bar>fval (float_sub (to_double False A 100) (to_double False B 100))
             - (of_int A - of_int B) / 100\<bar> \<le> 3 / 2 ^ 14"
proof -
  have "(of_int A :: rat) < 10 ^ 14" "(of_int B :: rat) < 10 ^ 14"
    using assms by (metis of_int_less_iff of_int_numeral of_int_power)+
  then have small: "of_int A / of_int 100 < (2::rat) ^ 40" "of_int B / of_int 100 < (2::rat) ^ 40"
    by simp_all
  from to_double_small [OF assms(1) _ small(1), of False]
  obtain ma ea where fa: "to_double False A 100 = Finite False ma ea" and ma: "0 \<le> ma"
    and ea: "ea \<le> - 12"
    and erra: "\<bar>of_int ma * 2 powi ea - of_int A / 100\<bar> \<le> (1 / 2 ^ 14 :: rat)"
    by auto
  from to_double_small [OF assms(3) _ small(2), of False]
  obtain mb eb where fb: "to_double False B 100 = Finite False mb eb" and mb: "0 \<le> mb"
    and eb: "eb \<le> - 12"
    and errb: "\<bar>of_int mb * 2 powi eb - of_int B / 100\<bar> \<le> (1 / 2 ^ 14 :: rat)"
    by auto
  define va :: rat where "va = of_int ma * 2 powi ea"
  define vb :: rat where "vb = of_int mb * 2 powi eb"
  define e0 where "e0 = min ea eb"
  define r where "r = ma * 2 ^ nat (ea - e0) - mb * 2 ^ nat (eb - e0)"
  have e0: "e0 \<le> - 12" "e0 \<le> ea" "e0 \<le> eb" using ea eb by (simp_all add: e0_def)
  have rv: "of_int r * (2::rat) powi e0 = va - vb"
  proof -
    have "of_int r * (2::rat) powi e0
        = of_int (ma * 2 ^ nat (ea - e0)) * 2 powi e0 - of_int (mb * 2 ^ nat (eb - e0)) * 2 powi e0"
      unfolding r_def by (simp only: of_int_diff left_diff_distrib)
    then show ?thesis
      unfolding scale_up [OF e0(2)] scale_up [OF e0(3)] va_def vb_def .
  qed
  have p0: "(0::rat) < 2 powi e0" by simp
  have sub: "float_sub (to_double False A 100) (to_double False B 100)
      = (if r = 0 then Finite False 0 (- 1074) else scaled (r < 0) \<bar>r\<bar> e0)"
    by (simp add: fa fb Let_def e0_def r_def)
  have A100: "(of_int A :: rat) / 100 < 10 ^ 12" "(0::rat) \<le> of_int A / 100"
    using \<open>(of_int A :: rat) < 10 ^ 14\<close> assms by simp_all
  have B100: "(of_int B :: rat) / 100 < 10 ^ 12" "(0::rat) \<le> of_int B / 100"
    using \<open>(of_int B :: rat) < 10 ^ 14\<close> assms by simp_all
  have erra': "\<bar>va - of_int A / 100\<bar> \<le> 1 / 16384" and errb': "\<bar>vb - of_int B / 100\<bar> \<le> 1 / 16384"
    using erra errb by (simp_all add: va_def vb_def)
  show ?thesis
  proof (cases "r = 0")
    case True
    with rv have "va = vb" by simp
    with erra' errb' have "\<bar>(of_int A :: rat) / 100 - of_int B / 100\<bar> < 1 / 100" by linarith
    then have "\<bar>(of_int A :: rat) - of_int B\<bar> < 1" by linarith
    then have "\<bar>(of_int (A - B) :: rat)\<bar> < of_int 1" by simp
    then have "\<bar>A - B\<bar> < 1" by (simp only: of_int_abs [symmetric] of_int_less_iff)
    then have "A = B" by linarith
    have "cents_of 0 (- 1074) = 0"
      by (simp add: cents_of_def round_half_even_zero)
    moreover from True have "float_sub (to_double False A 100) (to_double False B 100)
        = Finite False 0 (- 1074)"
      by (simp add: sub)
    ultimately show ?thesis using \<open>A = B\<close> by simp
  next
    case False
    have e0neg: "\<not> 0 \<le> e0" using e0 by linarith
    have sc: "float_sub (to_double False A 100) (to_double False B 100)
        = to_double (r < 0) \<bar>r\<bar> (2 ^ nat (- e0))"
      using False e0neg by (simp add: sub scaled_def)
    have pe0: "(2::rat) powi e0 = 1 / of_int (2 ^ nat (- e0))"
      using e0neg by (simp add: power_int_def field_simps)
    have q: "of_int \<bar>r\<bar> / of_int (2 ^ nat (- e0)) = \<bar>va - vb\<bar>"
    proof -
      have "\<bar>va - vb\<bar> = \<bar>of_int r\<bar> * (2::rat) powi e0"
        using p0 by (simp add: rv [symmetric] abs_mult)
      then show ?thesis by (simp add: pe0)
    qed
    have "\<bar>va - vb\<bar> < 2 ^ 40"
    proof -
      have "(2::rat) ^ 40 = 1099511627776" "(10::rat) ^ 12 = 1000000000000" by simp_all
      with erra' errb' A100 B100 show ?thesis by linarith
    qed
    with q have q40: "of_int \<bar>r\<bar> / of_int (2 ^ nat (- e0)) < (2::rat) ^ 40"
      by (simp only:)
    from to_double_small [OF _ _ q40, of "r < 0"]
    obtain m e where fd: "to_double (r < 0) \<bar>r\<bar> (2 ^ nat (- e0)) = Finite (r < 0) m e"
      and m: "0 \<le> m" and e: "e \<le> - 12"
      and errd: "\<bar>of_int m * 2 powi e - \<bar>va - vb\<bar>\<bar> \<le> (1 / 2 ^ 14 :: rat)"
      unfolding q by auto
    have r0: "(r < 0) = (va < vb)"
    proof -
      have "\<not> (2::rat) powi e0 < 0" by (simp add: not_less)
      then have "(of_int r * (2::rat) powi e0 < 0) = ((of_int r :: rat) < 0)"
        by (simp add: mult_less_0_iff)
      then show ?thesis using rv by simp
    qed
    have sign: "(r < 0) = (A < B)"
    proof -
      have AB: "A \<noteq> B"
      proof
        assume "A = B"
        with fa fb have "ma = mb" "ea = eb" by simp_all
        then have "r = 0" by (simp add: r_def)
        with False show False ..
      qed
      show ?thesis
      proof (cases "A < B")
        case True
        then have "A + 1 \<le> B" by simp
        then have "(of_int (A + 1) :: rat) \<le> of_int B" by (simp only: of_int_le_iff)
        then have "(of_int A :: rat) / 100 + 1 / 100 \<le> of_int B / 100" by simp
        with erra' errb' have "va < vb" by linarith
        with r0 True show ?thesis by simp
      next
        case nlt: False
        with AB have "B + 1 \<le> A" by simp
        then have "(of_int (B + 1) :: rat) \<le> of_int A" by (simp only: of_int_le_iff)
        then have "(of_int B :: rat) / 100 + 1 / 100 \<le> of_int A / 100" by simp
        with erra' errb' have "vb < va" by linarith
        with r0 nlt show ?thesis by simp
      qed
    qed
    have xy: "\<bar>(of_int A :: rat) - of_int B\<bar> / 100 = \<bar>of_int A / 100 - of_int B / 100\<bar>"
      by (simp flip: diff_divide_distrib)
    have "\<bar>\<bar>va - vb\<bar> - \<bar>(of_int A :: rat) / 100 - of_int B / 100\<bar>\<bar>
        \<le> \<bar>(va - vb) - (of_int A / 100 - of_int B / 100)\<bar>"
      by (rule abs_triangle_ineq3)
    also have "\<dots> \<le> \<bar>va - of_int A / 100\<bar> + \<bar>vb - of_int B / 100\<bar>"
      by linarith
    also have "\<dots> \<le> 2 / 16384"
      using erra' errb' by linarith
    finally have absd: "\<bar>\<bar>va - vb\<bar> - \<bar>(of_int A :: rat) - of_int B\<bar> / 100\<bar> \<le> 2 / 16384"
      by (simp only: xy)
    have errd': "\<bar>of_int m * 2 powi e - \<bar>va - vb\<bar>\<bar> \<le> (1 / 16384 :: rat)"
      using errd by simp
    have "\<bar>of_int m * 2 powi e * 100 - of_int \<bar>A - B\<bar>\<bar> < (1 / 2 :: rat)"
    proof -
      have "(of_int \<bar>A - B\<bar> :: rat) = \<bar>of_int A - of_int B\<bar>" by simp
      with cents_close [OF errd' absd] show ?thesis by (simp only:)
    qed
    with e have cents: "cents_of m e = \<bar>A - B\<bar>"
      by (intro cents_of_unique) simp_all
    have val: "\<bar>fval (Finite (r < 0) m e) - (of_int A - of_int B) / 100\<bar> \<le> 3 / 2 ^ 14"
    proof (cases "va < vb")
      case True
      from value_close(1) [OF errd' erra' errb' True] True show ?thesis
        by (simp add: r0 diff_divide_distrib)
    next
      case False
      from value_close(2) [OF errd' erra' errb' False] False show ?thesis
        by (simp add: r0 diff_divide_distrib)
    qed
    have res: "float_sub (to_double False A 100) (to_double False B 100) = Finite (r < 0) m e"
      by (simp only: sc fd)
    have disp: "format_2f g (Finite (r < 0) m e) = fixed2 g (A < B) \<bar>A - B\<bar>"
      by (simp add: cents sign)
    show ?thesis
      unfolding res using disp val by blast
  qed
qed


section \<open>Properties of the key metrics\<close>

lemma cents_text_10532050: "cents_text 10532050 = ''105320.50''"
  by code_simp

lemma cents_text_10480000: "cents_text 10480000 = ''104800.00''"
  by code_simp





lemma dollars_of_cents_52050: "dollars_of_cents 52050 = ''$520.50''"
  by code_simp




text \<open>
  Claim C1, as the code has it. For an account whose equity and last equity are amounts of
  whole cents, \<open>A\<close> and \<open>B\<close> hundredths, not negative and below \<open>10\<^sup>1\<^sup>2\<close> (given as the
  numeral with two decimals, or as any value that \<^verbatim>\<open>float\<close> converts to the binary64
  number nearest to the amount), the metric "Today's P/L" shows the exact difference
  \<open>(A - B) / 100\<close>. The binary64 difference behind it is within \<open>3 / 2\<^sup>1\<^sup>4\<close> of the
  exact difference.
\<close>

theorem todays_pl_shows_exact_cents:
  assumes "0 \<le> A" "A < 10 ^ 14" "0 \<le> B" "B < 10 ^ 14"
    and "equity a = PStr (cents_text A) \<or> py_float (equity a) = Inr (to_double False A 100)"
    and "last_equity a = PStr (cents_text B)
           \<or> py_float (last_equity a) = Inr (to_double False B 100)"
  shows "todays_pl a = Inr (dollars_of_cents (A - B))
     \<and> (\<exists>x y. py_float (equity a) = Inr x \<and> py_float (last_equity a) = Inr y
            \<and> \<bar>fval (float_sub x y) - (of_int A - of_int B) / 100\<bar> \<le> 3 / 2 ^ 14)"
proof -
  from assms(1,5) have e: "py_float (equity a) = Inr (to_double False A 100)"
    using py_float_cents_text [of A] by auto
  from assms(3,6) have l: "py_float (last_equity a) = Inr (to_double False B 100)"
    using py_float_cents_text [of B] by auto
  from float_sub_cents [OF assms(1-4), of True] e l show ?thesis
    by (simp add: todays_pl_def dollars_def dollars_of_cents_def)
qed

theorem todays_pl_shows_exact_cents_witness:
  "todays_pl demo_account = Inr ''$520.50''"
proof -
  have e: "equity demo_account = PStr (cents_text 10532050)"
    and l: "last_equity demo_account = PStr (cents_text 10480000)"
    by (simp_all add: demo_account_def cents_text_10532050 cents_text_10480000)
  from todays_pl_shows_exact_cents [of 10532050 10480000 demo_account] e l
  have "todays_pl demo_account = Inr (dollars_of_cents (10532050 - 10480000))"
    by simp
  then show ?thesis by (simp add: dollars_of_cents_52050)
qed

text \<open>
  The computed number itself is not the exact decimal difference: for an equity of
  \<^verbatim>\<open>0.30\<close> and a last equity of \<^verbatim>\<open>0.10\<close> the binary64 difference is
  \<open>7205759403792793 / 2\<^sup>5\<^sup>5\<close>, which is Python's \<^verbatim>\<open>0.19999999999999998\<close>, not \<open>0.20\<close>; the
  metric shows \<^verbatim>\<open>$0.20\<close>.
\<close>

theorem todays_pl_value_not_exact_decimal:
  "py_float (PStr ''0.30'') = Inr (Finite False 5404319552844595 (- 54))
   \<and> py_float (PStr ''0.10'') = Inr (Finite False 7205759403792794 (- 56))
   \<and> float_sub (Finite False 5404319552844595 (- 54)) (Finite False 7205759403792794 (- 56))
        = Finite False 7205759403792793 (- 55)
   \<and> fval (Finite False 7205759403792793 (- 55)) = 7205759403792793 / 36028797018963968
   \<and> fval (Finite False 7205759403792793 (- 55)) \<noteq> 30 / 100 - 10 / 100
   \<and> todays_pl \<lparr>portfolio_value = PStr ''0.30'', cash = PStr ''0.30'', equity = PStr ''0.30'',
         last_equity = PStr ''0.10''\<rparr> = Inr ''$0.20''"
proof (intro conjI)
  show a: "py_float (PStr ''0.30'') = Inr (Finite False 5404319552844595 (- 54))"
    by code_simp
  show b: "py_float (PStr ''0.10'') = Inr (Finite False 7205759403792794 (- 56))"
    by code_simp
  show "float_sub (Finite False 5404319552844595 (- 54)) (Finite False 7205759403792794 (- 56))
        = Finite False 7205759403792793 (- 55)"
    by code_simp
  show v: "fval (Finite False 7205759403792793 (- 55)) = 7205759403792793 / 36028797018963968"
    by (simp add: power_int_minus_divide)
  show "fval (Finite False 7205759403792793 (- 55)) \<noteq> 30 / 100 - 10 / 100"
    unfolding v by simp
  show "todays_pl \<lparr>portfolio_value = PStr ''0.30'', cash = PStr ''0.30'', equity = PStr ''0.30'',
         last_equity = PStr ''0.10''\<rparr> = Inr ''$0.20''"
    by code_simp
qed




text \<open>
  The range matters: from \<open>2\<^sup>4\<^sup>6\<close> on, neighbouring binary64 numbers are more than a cent
  apart, and two amounts one cent apart show a difference of two cents.
\<close>

lemma todays_pl_beyond_range:
  "todays_pl \<lparr>portfolio_value = PStr ''70368744177664.01'', cash = PStr ''0.00'',
       equity = PStr ''70368744177664.01'', last_equity = PStr ''70368744177664.00''\<rparr>
     = Inr ''$0.02''"
  by code_simp

end
